theory Spec2Isabelle
  imports Complex_Main "HOL-Library.Sublist" "HOL-Library.Log_Nat"
begin

section \<open>Python values used by the pipeline\<close>

text \<open>
  Every error the pipeline raises is a plain \<^verbatim>\<open>Exception\<close> whose only content is its
  message, and every handler reads it through \<^verbatim>\<open>str(e)\<close>. An exception is therefore
  modelled by its message, and a computation that may raise returns \<open>exn + 'a\<close>
  (\<open>Inl\<close> the raised message). A character of a \<open>string\<close> stands for one Python code point.
\<close>

type_synonym exn = string

text \<open>\<^verbatim>\<open>s.split(c)\<close> for a one-character separator: empty pieces are kept.\<close>

fun py_split :: "char \<Rightarrow> string \<Rightarrow> string list" where
  "py_split c [] = [[]]"
| "py_split c (x # xs) =
     (if x = c then [] # py_split c xs
      else (case py_split c xs of [] \<Rightarrow> [[x]] | y # ys \<Rightarrow> (x # y) # ys))"

text \<open>\<^verbatim>\<open>sep.join(parts)\<close>.\<close>

fun py_join :: "string \<Rightarrow> string list \<Rightarrow> string" where
  "py_join sep [] = []"
| "py_join sep [x] = x"
| "py_join sep (x # y # ys) = x @ sep @ py_join sep (y # ys)"

text \<open>\<^verbatim>\<open>s.endswith(suf)\<close>.\<close>

definition endswith :: "string \<Rightarrow> string \<Rightarrow> bool" where
  "endswith s suf = (length suf \<le> length s \<and> drop (length s - length suf) s = suf)"

section \<open>Storage locators\<close>

text \<open>\<^verbatim>\<open>f"s3://{bucket}/{key}"\<close>, the form in which every stage returns its artifact.\<close>

definition s3_path :: "string \<Rightarrow> string \<Rightarrow> string" where
  "s3_path bucket key = ''s3://'' @ bucket @ ''/'' @ key"

text \<open>
  \<^verbatim>\<open>path.split('/')[2]\<close>: indexing a list that is too short raises \<^verbatim>\<open>IndexError\<close>.
\<close>

definition locator_bucket :: "string \<Rightarrow> exn + string" where
  "locator_bucket path =
     (let parts = py_split CHR ''/'' path
      in if 2 < length parts then Inr (parts ! 2) else Inl ''list index out of range'')"

text \<open>\<^verbatim>\<open>'/'.join(path.split('/')[3:])\<close>: a slice never raises.\<close>

definition locator_key :: "string \<Rightarrow> string" where
  "locator_key path = py_join ''/'' (drop 3 (py_split CHR ''/'' path))"

section \<open>Video Job Runner (\<^verbatim>\<open>create_video_with_nova_reel\<close>)\<close>

record status_response =
  status :: string
  failureMessage :: "string option"

record video_payload =
  taskType :: string
  prompt_text :: string
  image_format :: string
  image_bytes :: string
  durationSeconds :: nat
  fps :: nat
  dimension :: string
  seed :: nat

text \<open>
  The external services, as the functions of the clients held by \<^verbatim>\<open>aws_tools\<close>. Each
  may raise. \<open>get_async_invoke\<close> is given the number of status queries already made, so
  that a job can answer differently from one poll to the next.
\<close>

record aws =
  s3_bucket :: string
  download_fileobj :: "string \<Rightarrow> string \<Rightarrow> exn + string"
  b64encode :: "string \<Rightarrow> string"
  start_async_invoke :: "video_payload \<Rightarrow> string \<Rightarrow> exn + string"
  get_async_invoke :: "string \<Rightarrow> nat \<Rightarrow> exn + status_response"
  list_objects_v2 :: "string \<Rightarrow> string \<Rightarrow> exn + string list"

text \<open>The calls a run makes, in order, and the time it sleeps.\<close>

datatype call =
    DownloadFileobj string string
  | StartAsyncInvoke video_payload string
  | GetAsyncInvoke string
  | ListObjectsV2 string string
  | Sleep nat

type_synonym 'a traced = "(exn + 'a) \<times> call list"

definition logged :: "call list \<Rightarrow> 'a traced \<Rightarrow> 'a traced" where
  "logged cs r = (fst r, cs @ snd r)"

text \<open>
  \<^verbatim>\<open>video_prompt[:512] if len(video_prompt) > 512 else video_prompt\<close>; the same line is in
  \<^verbatim>\<open>create_video_with_image\<close> of \<^verbatim>\<open>simple_video_ad.py\<close>.
\<close>

definition truncated_prompt :: "string \<Rightarrow> string" where
  "truncated_prompt video_prompt =
     (if 512 < length video_prompt then take 512 video_prompt else video_prompt)"

definition payload :: "string \<Rightarrow> string \<Rightarrow> video_payload" where
  "payload video_prompt image_base64 =
     \<lparr> taskType = ''TEXT_VIDEO'', prompt_text = truncated_prompt video_prompt,
       image_format = ''png'', image_bytes = image_base64,
       durationSeconds = 6, fps = 24, dimension = ''1280x720'', seed = 0 \<rparr>"

definition max_wait_time :: nat where
  "max_wait_time = 600"

definition poll_interval :: nat where
  "poll_interval = 15"

definition not_found_error :: exn where
  "not_found_error = ''Video file not found in S3 after completion''"

definition failed_error :: "string \<Rightarrow> exn" where
  "failed_error error_msg = ''Video generation failed: '' @ error_msg"

text \<open>\<^verbatim>\<open>f"Video generation timed out after {max_wait_time} seconds"\<close>, with the 600 printed.\<close>

definition timeout_error :: exn where
  "timeout_error = ''Video generation timed out after 600 seconds''"

text \<open>The outer handler: \<^verbatim>\<open>raise Exception(f"Failed to create video: {str(e)}")\<close>.\<close>

definition create_video_error :: "exn \<Rightarrow> exn" where
  "create_video_error e = ''Failed to create video: '' @ e"

text \<open>
  The \<^verbatim>\<open>for obj in video_objects.get('Contents', [])\<close> loop: the first key ending in
  \<^verbatim>\<open>.mp4\<close> is returned as a locator, and a listing without one raises.
\<close>

fun first_mp4 :: "string \<Rightarrow> string list \<Rightarrow> exn + string" where
  "first_mp4 bucket [] = Inl not_found_error"
| "first_mp4 bucket (k # ks) =
     (if endswith k ''.mp4'' then Inr (s3_path bucket k) else first_mp4 bucket ks)"

text \<open>
  The \<^verbatim>\<open>while elapsed_time < max_wait_time\<close> loop. \<open>n\<close> counts the status queries made so
  far. An exception of \<^verbatim>\<open>get_async_invoke\<close> or \<^verbatim>\<open>list_objects_v2\<close> leaves the loop, as
  nothing inside it catches one.
\<close>

function poll_loop :: "aws \<Rightarrow> string \<Rightarrow> string \<Rightarrow> nat \<Rightarrow> nat \<Rightarrow> string traced" where
  "poll_loop env arn video_key elapsed_time n =
     (if elapsed_time < max_wait_time then
        (case get_async_invoke env arn n of
           Inl e \<Rightarrow> (Inl e, [GetAsyncInvoke arn])
         | Inr r \<Rightarrow>
             if status r = ''Completed'' then
               (case list_objects_v2 env (s3_bucket env) video_key of
                  Inl e \<Rightarrow> (Inl e, [GetAsyncInvoke arn, ListObjectsV2 (s3_bucket env) video_key])
                | Inr keys \<Rightarrow>
                    (first_mp4 (s3_bucket env) keys,
                     [GetAsyncInvoke arn, ListObjectsV2 (s3_bucket env) video_key]))
             else if status r = ''Failed'' then
               (Inl (failed_error
                      (case failureMessage r of None \<Rightarrow> ''Unknown error'' | Some m \<Rightarrow> m)),
                [GetAsyncInvoke arn])
             else if status r \<in> {''InProgress'', ''Submitted''} then
               logged [GetAsyncInvoke arn, Sleep poll_interval]
                 (poll_loop env arn video_key (elapsed_time + poll_interval) (Suc n))
             else
               logged [GetAsyncInvoke arn, Sleep poll_interval]
                 (poll_loop env arn video_key (elapsed_time + poll_interval) (Suc n)))
      else (Inl timeout_error, []))"
  by pat_completeness auto
termination
  by (relation "measure (\<lambda>(env, arn, video_key, elapsed_time, n). max_wait_time - elapsed_time)")
     (auto simp: max_wait_time_def poll_interval_def)

text \<open>
  The output prefix, \<^verbatim>\<open>f"generated_videos/video_{uuid.uuid4().hex}"\<close>, and the location
  handed to the service, \<^verbatim>\<open>f"s3://{aws_tools.s3_bucket}/{video_key}/"\<close>. \<open>u\<close> is the hex
  string of the UUID drawn (an earlier draw is overwritten before it is used).
\<close>

definition video_key_for :: "string \<Rightarrow> string" where
  "video_key_for u = ''generated_videos/video_'' @ u"

definition output_s3_uri :: "aws \<Rightarrow> string \<Rightarrow> string" where
  "output_s3_uri env u = ''s3://'' @ s3_bucket env @ ''/'' @ video_key_for u @ ''/''"

text \<open>
  The body of \<^verbatim>\<open>create_video_with_nova_reel\<close> inside its \<^verbatim>\<open>try\<close>. The temporary file
  that holds the downloaded image is not modelled.
\<close>

definition create_video_body :: "aws \<Rightarrow> string \<Rightarrow> string \<Rightarrow> string \<Rightarrow> string traced" where
  "create_video_body env u video_prompt reference_image_s3 =
     (case locator_bucket reference_image_s3 of
        Inl e \<Rightarrow> (Inl e, [])
      | Inr bucket_name \<Rightarrow>
          let image_key = locator_key reference_image_s3
          in (case download_fileobj env bucket_name image_key of
                Inl e \<Rightarrow> (Inl e, [DownloadFileobj bucket_name image_key])
              | Inr image_data \<Rightarrow>
                  let image_base64 = b64encode env image_data
                  in logged [DownloadFileobj bucket_name image_key,
                             StartAsyncInvoke (payload video_prompt image_base64)
                               (output_s3_uri env u)]
                       (case start_async_invoke env (payload video_prompt image_base64)
                               (output_s3_uri env u) of
                          Inl e \<Rightarrow> (Inl e, [])
                        | Inr invocation_arn \<Rightarrow>
                            poll_loop env invocation_arn (video_key_for u) 0 0)))"

text \<open>The whole tool: every exception of the body is re-raised with the prefix.\<close>

definition create_video_with_nova_reel ::
  "aws \<Rightarrow> string \<Rightarrow> string \<Rightarrow> string \<Rightarrow> string traced" where
  "create_video_with_nova_reel env u video_prompt reference_image_s3 =
     (case create_video_body env u video_prompt reference_image_s3 of
        (Inl e, tr) \<Rightarrow> (Inl (create_video_error e), tr)
      | (Inr final_s3_path, tr) \<Rightarrow> (Inr final_s3_path, tr))"

text \<open>What a trace says about the calls made.\<close>

fun status_queries :: "call list \<Rightarrow> nat" where
  "status_queries [] = 0"
| "status_queries (GetAsyncInvoke arn # cs) = Suc (status_queries cs)"
| "status_queries (c # cs) = status_queries cs"

fun submitted_prompts :: "call list \<Rightarrow> string list" where
  "submitted_prompts [] = []"
| "submitted_prompts (StartAsyncInvoke p uri # cs) = prompt_text p # submitted_prompts cs"
| "submitted_prompts (c # cs) = submitted_prompts cs"

definition transient :: "exn + status_response \<Rightarrow> bool" where
  "transient r = (case r of Inl e \<Rightarrow> False
                  | Inr s \<Rightarrow> status s \<noteq> ''Completed'' \<and> status s \<noteq> ''Failed'')"

text \<open>A job that stays in progress for ever, in a bucket holding one reference image.\<close>

definition in_progress_job :: aws where
  "in_progress_job =
     \<lparr> s3_bucket = ''ads'',
       download_fileobj = (\<lambda>bucket key. Inr ''png''),
       b64encode = (\<lambda>bytes. bytes),
       start_async_invoke = (\<lambda>p uri. Inr ''arn:job/1''),
       get_async_invoke = (\<lambda>arn n. Inr \<lparr> status = ''InProgress'', failureMessage = None \<rparr>),
       list_objects_v2 = (\<lambda>bucket prefix. Inr []) \<rparr>"


text \<open>
  A job that is \<^verbatim>\<open>Submitted\<close>, twice \<^verbatim>\<open>InProgress\<close> and then \<^verbatim>\<open>Completed\<close>; its output
  prefix holds a manifest and the video.
\<close>

definition completed_job :: aws where
  "completed_job =
     \<lparr> s3_bucket = ''ads'',
       download_fileobj = (\<lambda>bucket key. Inr ''png''),
       b64encode = (\<lambda>bytes. bytes),
       start_async_invoke = (\<lambda>p uri. Inr ''arn:job/1''),
       get_async_invoke = (\<lambda>arn n.
          Inr \<lparr> status = (if n = 0 then ''Submitted'' else if n < 3 then ''InProgress''
                           else ''Completed''),
                failureMessage = None \<rparr>),
       list_objects_v2 = (\<lambda>bucket prefix.
          Inr [''generated_videos/video_u1/manifest.json'',
               ''generated_videos/video_u1/output.mp4'']) \<rparr>"

text \<open>A job that is \<^verbatim>\<open>Completed\<close> at once but whose output prefix holds no video.\<close>

definition empty_output_job :: aws where
  "empty_output_job =
     \<lparr> s3_bucket = ''ads'',
       download_fileobj = (\<lambda>bucket key. Inr ''png''),
       b64encode = (\<lambda>bytes. bytes),
       start_async_invoke = (\<lambda>p uri. Inr ''arn:job/1''),
       get_async_invoke = (\<lambda>arn n. Inr \<lparr> status = ''Completed'', failureMessage = None \<rparr>),
       list_objects_v2 = (\<lambda>bucket prefix. Inr [''generated_videos/video_u1/manifest.json'']) \<rparr>"

section \<open>Float arithmetic\<close>

text \<open>
  Durations are Python floats: binary64 numbers, each of them a rational. A float
  operation computes the exact result and rounds it to the nearest binary64 number, to
  the even one of two equally near; a result beyond the largest binary64 number is
  infinite. \<open>round64\<close> is that rounding, \<open>None\<close> standing for the infinite result:
  \<open>ilog2\<close> finds the binade of the value, whose spacing is \<open>2\<close> to the power \<open>e - 52\<close>, and
  below \<open>2\<close> to the power \<open>-1022\<close> the spacing stays that of the lowest binade.
\<close>

definition round_half_even :: "rat \<Rightarrow> int" where
  "round_half_even x =
     (let f = \<lfloor>x\<rfloor>; d = x - of_int f
      in if d < 1 / 2 then f else if 1 / 2 < d then f + 1 else if even f then f else f + 1)"

definition ilog2 :: "rat \<Rightarrow> int" where
  "ilog2 x = (let (p, q) = quotient_of x; e = bitlen p - bitlen q
              in if 2 powi e \<le> x then e else e - 1)"

definition round64 :: "rat \<Rightarrow> rat option" where
  "round64 x =
     (if x = 0 then Some 0
      else let a = \<bar>x\<bar>;
               e = max (ilog2 a) (- 1022);
               quantum = 2 powi (e - 52);
               y = of_int (round_half_even (a / quantum)) * quantum
           in if 2 powi 1024 \<le> y then None else Some (sgn x * y))"

text \<open>\<^verbatim>\<open>x / y\<close> for a divisor that is not zero.\<close>

definition float_div :: "rat \<Rightarrow> rat \<Rightarrow> rat option" where
  "float_div x y = round64 (x / y)"

text \<open>
  \<^verbatim>\<open>x + y\<close>. An infinite sum is held as \<open>2\<close> to the power 1024, which is above every
  float, as infinity is.
\<close>

definition float_add :: "rat \<Rightarrow> rat \<Rightarrow> rat" where
  "float_add x y = (case round64 (x + y) of None \<Rightarrow> 2 powi 1024 | Some z \<Rightarrow> z)"

text \<open>Python's \<^verbatim>\<open>int(x)\<close> rounds towards zero.\<close>

definition py_int :: "rat \<Rightarrow> int" where
  "py_int x = (if 0 \<le> x then \<lfloor>x\<rfloor> else \<lceil>x\<rceil>)"

section \<open>Merge Stage (\<^verbatim>\<open>merge_video_and_audio\<close>)\<close>

text \<open>
  A clip of the media library, as far as the merge reads it: its duration in seconds and
  the duration of the audio track attached to it, if any. The operations are those of
  the library. A subclip from \<open>t_start\<close> to \<open>t_end\<close> lasts \<open>t_end - t_start\<close>; the merge only
  takes subclips from 0, for which the float difference is exact. A concatenation lasts
  the float sum of the durations of its parts, added one after the other from 0.
  Attaching an audio track leaves the duration of the video as it is.
\<close>

record clip =
  duration :: rat
  audio :: "rat option"

definition subclip :: "clip \<Rightarrow> rat \<Rightarrow> rat \<Rightarrow> clip" where
  "subclip c t_start t_end =
     c\<lparr> duration := t_end - t_start, audio := map_option (\<lambda>d. t_end - t_start) (audio c) \<rparr>"

definition concatenate_audioclips :: "clip list \<Rightarrow> clip" where
  "concatenate_audioclips clips =
     \<lparr> duration = foldl float_add 0 (map duration clips), audio = None \<rparr>"

definition set_audio :: "clip \<Rightarrow> clip \<Rightarrow> clip" where
  "set_audio video_clip audio_clip = video_clip\<lparr> audio := Some (duration audio_clip) \<rparr>"

text \<open>
  \<^verbatim>\<open>int(video_clip.duration / audio_clip.duration) + 1\<close>: the division raises when the
  audio lasts 0 seconds, and \<^verbatim>\<open>int\<close> raises on an infinite quotient.
\<close>

definition loops_needed :: "clip \<Rightarrow> clip \<Rightarrow> exn + int" where
  "loops_needed video_clip audio_clip =
     (if duration audio_clip = 0 then Inl ''float division by zero''
      else (case float_div (duration video_clip) (duration audio_clip) of
              None \<Rightarrow> Inl ''cannot convert float infinity to integer''
            | Some ratio \<Rightarrow> Inr (py_int ratio + 1)))"

text \<open>The \<^verbatim>\<open>if\<close>/\<^verbatim>\<open>elif\<close> that adjusts the audio to the video.\<close>

definition adjust_audio :: "clip \<Rightarrow> clip \<Rightarrow> exn + clip" where
  "adjust_audio video_clip audio_clip =
     (if duration video_clip < duration audio_clip then
        Inr (subclip audio_clip 0 (duration video_clip))
      else if duration audio_clip < duration video_clip then
        (case loops_needed video_clip audio_clip of
           Inl e \<Rightarrow> Inl e
         | Inr loops \<Rightarrow>
             Inr (subclip (concatenate_audioclips (replicate (nat loops) audio_clip)) 0
                    (duration video_clip)))
      else Inr audio_clip)"

definition final_video :: "clip \<Rightarrow> clip \<Rightarrow> exn + clip" where
  "final_video video_clip audio_clip =
     (case adjust_audio video_clip audio_clip of
        Inl e \<Rightarrow> Inl e
      | Inr adjusted \<Rightarrow> Inr (set_audio video_clip adjusted))"

text \<open>
  The merge step of \<^verbatim>\<open>auto_video_ad.py\<close> instead trims both clips to the shorter duration:
  \<^verbatim>\<open>min_duration = min(video_clip.duration, audio_clip.duration)\<close>.
\<close>

definition auto_final_clip :: "clip \<Rightarrow> clip \<Rightarrow> clip" where
  "auto_final_clip video_clip audio_clip =
     (let min_duration = min (duration video_clip) (duration audio_clip);
          video_trimmed = subclip video_clip 0 min_duration;
          audio_trimmed = subclip audio_clip 0 min_duration
      in set_audio video_trimmed audio_trimmed)"

text \<open>
  The floats nearest to 1.2 and to 0.2, and two clips of these durations.
\<close>

definition float_1_2 :: rat where
  "float_1_2 = 5404319552844595 / 2 ^ 52"

definition float_0_2 :: rat where
  "float_0_2 = 3602879701896397 / 2 ^ 54"

definition video_1_2 :: clip where
  "video_1_2 = \<lparr> duration = float_1_2, audio = None \<rparr>"

definition audio_0_2 :: clip where
  "audio_0_2 = \<lparr> duration = float_0_2, audio = None \<rparr>"

text \<open>
  The local side of the merge: the storage functions of \<open>aws\<close>, the names the system gives
  to the temporary files (the \<open>i\<close>-th file created by the invocation), and the media
  library, each of whose calls may raise.
\<close>

record media = aws +
  NamedTemporaryFile :: "nat \<Rightarrow> string"
  VideoFileClip :: "string \<Rightarrow> exn + clip"
  AudioFileClip :: "string \<Rightarrow> exn + clip"
  write_videofile :: "clip \<Rightarrow> string \<Rightarrow> exn + unit"
  put_object :: "string \<Rightarrow> string \<Rightarrow> exn + unit"

text \<open>
  The disk is the set of paths that exist. A step that raises leaves the state as it is
  at that point and skips the rest of the \<^verbatim>\<open>try\<close> block.
\<close>

type_synonym disk = "string set"

definition on_success ::
  "exn + 'a \<Rightarrow> 's \<Rightarrow> ('a \<Rightarrow> (exn + 'b) \<times> 's) \<Rightarrow> (exn + 'b) \<times> 's" where
  "on_success r s k = (case r of Inl e \<Rightarrow> (Inl e, s) | Inr v \<Rightarrow> k v)"

definition final_video_key_for :: "string \<Rightarrow> string" where
  "final_video_key_for u = ''final_videos/ad_'' @ u @ ''.mp4''"

text \<open>
  The \<^verbatim>\<open>try\<close> block of \<^verbatim>\<open>merge_video_and_audio\<close>, with the disk it leaves and the keys it
  has passed to \<^verbatim>\<open>put_object\<close>. The three temporary files are created with
  \<^verbatim>\<open>delete=False\<close>, so leaving a \<^verbatim>\<open>with\<close> block closes them and does not remove them.
  The only removal is the \<^verbatim>\<open>os.unlink\<close> loop, after the upload; an unlink that
  fails is ignored there, and is taken to succeed here.
\<close>

definition merge_body ::
  "'a media_scheme \<Rightarrow> string \<Rightarrow> disk \<Rightarrow> string \<Rightarrow> string
     \<Rightarrow> (exn + string) \<times> disk \<times> string list" where
  "merge_body env u d video_s3_path audio_s3_path =
     (let video_file = NamedTemporaryFile env 0;
          audio_file = NamedTemporaryFile env 1;
          d1 = d \<union> {video_file, audio_file}
      in
      on_success (locator_bucket video_s3_path) (d1, []) (\<lambda>video_bucket.
      on_success (download_fileobj env video_bucket (locator_key video_s3_path)) (d1, []) (\<lambda>_.
      on_success (locator_bucket audio_s3_path) (d1, []) (\<lambda>audio_bucket.
      on_success (download_fileobj env audio_bucket (locator_key audio_s3_path)) (d1, []) (\<lambda>_.
      on_success (VideoFileClip env video_file) (d1, []) (\<lambda>video_clip.
      on_success (AudioFileClip env audio_file) (d1, []) (\<lambda>audio_clip.
      on_success (final_video video_clip audio_clip) (d1, []) (\<lambda>final.
        let final_video_key = final_video_key_for u;
            final_file = NamedTemporaryFile env 2;
            d2 = d1 \<union> {final_file}
        in
        on_success (write_videofile env final final_file) (d2, []) (\<lambda>_.
        on_success (put_object env (s3_bucket env) final_video_key) (d2, [final_video_key])
          (\<lambda>_.
          (Inr (s3_path (s3_bucket env) final_video_key),
           d2 - {video_file, audio_file, final_file}, [final_video_key])))))))))))"

text \<open>The handler: \<^verbatim>\<open>raise Exception(f"Failed to merge video and audio: {str(e)}")\<close>.\<close>

definition merge_error :: "exn \<Rightarrow> exn" where
  "merge_error e = ''Failed to merge video and audio: '' @ e"

text \<open>The tool, with the disk it leaves.\<close>

definition merge_video_and_audio ::
  "'a media_scheme \<Rightarrow> string \<Rightarrow> disk \<Rightarrow> string \<Rightarrow> string \<Rightarrow> (exn + string) \<times> disk" where
  "merge_video_and_audio env u d video_s3_path audio_s3_path =
     (case merge_body env u d video_s3_path audio_s3_path of
        (Inl e, d', keys) \<Rightarrow> (Inl (merge_error e), d')
      | (Inr final_s3_path, d', keys) \<Rightarrow> (Inr final_s3_path, d'))"

text \<open>The keys the tool has passed to \<^verbatim>\<open>put_object\<close>.\<close>

definition merge_puts ::
  "'a media_scheme \<Rightarrow> string \<Rightarrow> disk \<Rightarrow> string \<Rightarrow> string \<Rightarrow> string list" where
  "merge_puts env u d video_s3_path audio_s3_path =
     snd (snd (merge_body env u d video_s3_path audio_s3_path))"

text \<open>
  The merge step of \<^verbatim>\<open>auto_video_ad.py\<close>: the files are named after \<open>unique_id\<close>, a
  download or the encoder creates its file, and the \<^verbatim>\<open>finally\<close> block removes whichever
  of the three exists, whether the \<^verbatim>\<open>try\<close> block raised or not.
\<close>

definition auto_merge_try ::
  "'a media_scheme \<Rightarrow> string \<Rightarrow> disk \<Rightarrow> string \<Rightarrow> string \<Rightarrow> string \<Rightarrow> (exn + unit) \<times> disk"
  where
  "auto_merge_try env unique_id d video_s3_key audio_s3_key final_s3_key =
     (let video_file = ''temp_video_'' @ unique_id @ ''.mp4'';
          audio_file = ''temp_audio_'' @ unique_id @ ''.mp3'';
          output_file = ''final_video_'' @ unique_id @ ''.mp4''
      in
      on_success (download_fileobj env (s3_bucket env) video_s3_key) d (\<lambda>_.
      on_success (download_fileobj env (s3_bucket env) audio_s3_key) (d \<union> {video_file}) (\<lambda>_.
      on_success (VideoFileClip env video_file) (d \<union> {video_file, audio_file}) (\<lambda>video_clip.
      on_success (AudioFileClip env audio_file) (d \<union> {video_file, audio_file}) (\<lambda>audio_clip.
      on_success (write_videofile env (auto_final_clip video_clip audio_clip) output_file)
        (d \<union> {video_file, audio_file}) (\<lambda>_.
      on_success (put_object env (s3_bucket env) final_s3_key)
        (d \<union> {video_file, audio_file, output_file}) (\<lambda>_.
          (Inr (), d \<union> {video_file, audio_file, output_file}))))))))"

definition auto_merge_step ::
  "'a media_scheme \<Rightarrow> string \<Rightarrow> disk \<Rightarrow> string \<Rightarrow> string \<Rightarrow> string \<Rightarrow> (exn + unit) \<times> disk"
  where
  "auto_merge_step env unique_id d video_s3_key audio_s3_key final_s3_key =
     (case auto_merge_try env unique_id d video_s3_key audio_s3_key final_s3_key of
        (r, d') \<Rightarrow>
          (r, d' - {''temp_video_'' @ unique_id @ ''.mp4'', ''temp_audio_'' @ unique_id @ ''.mp3'',
                    ''final_video_'' @ unique_id @ ''.mp4''}))"

text \<open>
  A merge whose audio object is missing from storage, and one in which every step
  succeeds on a 6-second video and a 2.5-second voiceover.
\<close>

definition missing_audio :: media where
  "missing_audio =
     \<lparr> s3_bucket = ''ads'',
       download_fileobj = (\<lambda>bucket key. if key = ''generated_audio/voiceover_u3.mp3''
                             then Inl ''NoSuchKey'' else Inr ''bytes''),
       b64encode = (\<lambda>bytes. bytes),
       start_async_invoke = (\<lambda>p uri. Inr ''arn:job/1''),
       get_async_invoke = (\<lambda>arn n. Inr \<lparr> status = ''Completed'', failureMessage = None \<rparr>),
       list_objects_v2 = (\<lambda>bucket prefix. Inr []),
       NamedTemporaryFile = (\<lambda>i. if i = 0 then ''/tmp/tmpa.mp4''
                             else if i = 1 then ''/tmp/tmpb.mp3'' else ''/tmp/tmpc.mp4''),
       VideoFileClip = (\<lambda>name. Inr \<lparr> duration = 6, audio = None \<rparr>),
       AudioFileClip = (\<lambda>name. Inr \<lparr> duration = 5 / 2, audio = None \<rparr>),
       write_videofile = (\<lambda>c name. Inr ()),
       put_object = (\<lambda>bucket key. Inr ()) \<rparr>"

definition working_media :: media where
  "working_media = missing_audio\<lparr> download_fileobj := (\<lambda>bucket key. Inr ''bytes'') \<rparr>"

section \<open>Strategy Generator (\<^verbatim>\<open>generate_content_strategy\<close>)\<close>

text \<open>The values \<^verbatim>\<open>json.loads\<close> returns; a \<^verbatim>\<open>dict\<close> is the list of its items.\<close>

datatype json =
    JNull
  | JBool bool
  | JNumber rat
  | JString string
  | JArray "json list"
  | JObject "(string \<times> json) list"

text \<open>\<^verbatim>\<open>s.find(c)\<close> and \<^verbatim>\<open>s.rfind(c)\<close>: the lowest and the highest index of \<open>c\<close>, or \<open>-1\<close>.\<close>

fun py_find :: "char \<Rightarrow> string \<Rightarrow> int" where
  "py_find c [] = - 1"
| "py_find c (x # xs) =
     (if x = c then 0 else (let r = py_find c xs in if r < 0 then - 1 else r + 1))"

definition py_rfind :: "char \<Rightarrow> string \<Rightarrow> int" where
  "py_rfind c s =
     (let r = py_find c (rev s) in if r < 0 then - 1 else int (length s) - 1 - r)"

text \<open>
  \<^verbatim>\<open>s[i:j]\<close>: a negative index counts from the end, and both are clipped to the string.
\<close>

definition py_index :: "nat \<Rightarrow> int \<Rightarrow> nat" where
  "py_index n i = (if i < 0 then nat (max (i + int n) 0) else min (nat i) n)"

definition py_slice :: "string \<Rightarrow> int \<Rightarrow> int \<Rightarrow> string" where
  "py_slice s i j =
     (let start = py_index (length s) i; stop = py_index (length s) j
      in take (stop - start) (drop start s))"

text \<open>
  \<^verbatim>\<open>key in strategy\<close>: membership among the keys of a \<^verbatim>\<open>dict\<close>, among the elements of a
  list, substring of a string; the other values are not iterable and raise
  \<^verbatim>\<open>TypeError\<close>.
\<close>

definition py_in :: "string \<Rightarrow> json \<Rightarrow> exn + bool" where
  "py_in key v =
     (case v of
        JObject items \<Rightarrow> Inr (key \<in> set (map fst items))
      | JArray xs \<Rightarrow> Inr (JString key \<in> set xs)
      | JString s \<Rightarrow> Inr (sublist key s)
      | _ \<Rightarrow> Inl ''argument is not iterable'')"

text \<open>
  \<^verbatim>\<open>all(key in strategy for key in required_keys)\<close>: the generator stops at the first key
  that is absent.
\<close>

fun all_keys_in :: "string list \<Rightarrow> json \<Rightarrow> exn + bool" where
  "all_keys_in [] v = Inr True"
| "all_keys_in (key # keys) v =
     (case py_in key v of
        Inl e \<Rightarrow> Inl e
      | Inr present \<Rightarrow> if present then all_keys_in keys v else Inr False)"

definition required_keys :: "string list" where
  "required_keys = [''image_prompt'', ''video_prompt'', ''audio_script'']"

text \<open>The strategy of the \<^verbatim>\<open>except\<close> branch, built from the description alone.\<close>

definition fallback_image_prompt :: "string \<Rightarrow> string" where
  "fallback_image_prompt ad_description =
     ''Professional commercial photograph of '' @ ad_description
       @ '', high quality, 1280x720, cinematic lighting, marketing style''"

definition fallback_video_prompt :: "string \<Rightarrow> string" where
  "fallback_video_prompt ad_description =
     ''Create a 6-second commercial video about '' @ ad_description
       @ '', professional quality, smooth camera movement, engaging visuals''"

definition fallback_audio_script :: "string \<Rightarrow> string" where
  "fallback_audio_script ad_description =
     ''Discover the amazing '' @ ad_description @ ''. Experience the difference today!''"

definition fallback_strategy :: "string \<Rightarrow> json" where
  "fallback_strategy ad_description = JObject
     [(''image_prompt'', JString (fallback_image_prompt ad_description)),
      (''video_prompt'', JString (fallback_video_prompt ad_description)),
      (''audio_script'', JString (fallback_audio_script ad_description))]"

text \<open>
  The text-generation side: \<open>invoke_model\<close> is the call for a description together with
  the unwrapping of its response down to the text \<^verbatim>\<open>content\<close>, any step of which may raise;
  \<open>json_loads\<close> is \<^verbatim>\<open>json.loads\<close>.
\<close>

record text_model =
  invoke_model :: "string \<Rightarrow> exn + string"
  json_loads :: "string \<Rightarrow> exn + json"

text \<open>\<^verbatim>\<open>content[content.find('{'):content.rfind('}') + 1]\<close>.\<close>

definition json_str :: "string \<Rightarrow> string" where
  "json_str content =
     (let start_idx = py_find CHR ''{'' content;
          end_idx = py_rfind CHR ''}'' content + 1
      in py_slice content start_idx end_idx)"

text \<open>The \<^verbatim>\<open>try\<close> block.\<close>

definition generate_body :: "'a text_model_scheme \<Rightarrow> string \<Rightarrow> exn + json" where
  "generate_body env ad_description =
     (case invoke_model env ad_description of
        Inl e \<Rightarrow> Inl e
      | Inr content \<Rightarrow>
          (case json_loads env (json_str content) of
             Inl e \<Rightarrow> Inl e
           | Inr strategy \<Rightarrow>
               (case all_keys_in required_keys strategy of
                  Inl e \<Rightarrow> Inl e
                | Inr present \<Rightarrow>
                    if \<not> present then Inl ''Missing required strategy components''
                    else Inr strategy)))"

text \<open>The tool: whatever the \<^verbatim>\<open>try\<close> block raises, the fallback is returned.\<close>

definition generate_content_strategy :: "'a text_model_scheme \<Rightarrow> string \<Rightarrow> exn + json" where
  "generate_content_strategy env ad_description =
     (case generate_body env ad_description of
        Inl e \<Rightarrow> Inr (fallback_strategy ad_description)
      | Inr strategy \<Rightarrow> Inr strategy)"

text \<open>What a strategy holds under a key.\<close>

definition has_field :: "json \<Rightarrow> string \<Rightarrow> bool" where
  "has_field v key = (case v of JObject items \<Rightarrow> key \<in> set (map fst items) | _ \<Rightarrow> False)"

definition nonempty_field :: "json \<Rightarrow> string \<Rightarrow> bool" where
  "nonempty_field v key =
     (case v of
        JObject items \<Rightarrow>
          (case map_of items key of Some (JString s) \<Rightarrow> s \<noteq> [] | _ \<Rightarrow> False)
      | _ \<Rightarrow> False)"

text \<open>
  What is known of \<^verbatim>\<open>json.loads\<close>: it raises on the empty string and on a text that
  begins with a closing brace, and a text that begins with an opening brace is parsed to a
  \<^verbatim>\<open>dict\<close> or not at all.
\<close>

definition json_conformant :: "(string \<Rightarrow> exn + json) \<Rightarrow> bool" where
  "json_conformant loads =
     (\<forall>s v. loads s = Inr v \<longrightarrow>
        s \<noteq> [] \<and> hd s \<noteq> CHR ''}'' \<and> (hd s = CHR ''{'' \<longrightarrow> (\<exists>items. v = JObject items)))"

text \<open>
  A model that answers with a well-formed object whose three values are empty strings,
  one whose call fails, and one that answers with an object lacking a key.
\<close>

definition empty_fields_text :: string where
  \<open>empty_fields_text = ''{"image_prompt": "", "video_prompt": "", "audio_script": ""}''\<close>

definition empty_fields_model :: text_model where
  "empty_fields_model =
     \<lparr> invoke_model = (\<lambda>ad_description. Inr (''Here it is: '' @ empty_fields_text)),
       json_loads = (\<lambda>s. if s = empty_fields_text
          then Inr (JObject [(''image_prompt'', JString ''''), (''video_prompt'', JString ''''),
                             (''audio_script'', JString '''')])
          else Inl ''Expecting value'') \<rparr>"

definition failing_model :: text_model where
  "failing_model =
     \<lparr> invoke_model = (\<lambda>ad_description. Inl ''ThrottlingException''),
       json_loads = (\<lambda>s. Inl ''Expecting value'') \<rparr>"

definition missing_key_text :: string where
  \<open>missing_key_text = ''{"image_prompt": "a car"}''\<close>

definition missing_key_model :: text_model where
  "missing_key_model =
     \<lparr> invoke_model = (\<lambda>ad_description. Inr missing_key_text),
       json_loads = (\<lambda>s. if s = missing_key_text
          then Inr (JObject [(''image_prompt'', JString ''a car'')])
          else Inl ''Expecting value'') \<rparr>"

definition unparseable_model :: text_model where
  "unparseable_model =
     \<lparr> invoke_model = (\<lambda>ad_description. Inr ''I cannot help with that.''),
       json_loads = (\<lambda>s. Inl ''Expecting value'') \<rparr>"

text \<open>A model that answers with a complete strategy, wrapped in a sentence.\<close>

definition complete_text :: string where
  \<open>complete_text =
     ''{"image_prompt": "a red car", "video_prompt": "the car drives", "audio_script": "Drive it."}''\<close>

definition complete_strategy :: json where
  "complete_strategy = JObject
     [(''image_prompt'', JString ''a red car''), (''video_prompt'', JString ''the car drives''),
      (''audio_script'', JString ''Drive it.'')]"

definition complete_model :: text_model where
  "complete_model =
     \<lparr> invoke_model = (\<lambda>ad_description. Inr (''Here it is: '' @ complete_text @ '' Enjoy!'')),
       json_loads = (\<lambda>s. if s = complete_text then Inr complete_strategy
                          else Inl ''Expecting value'') \<rparr>"

section \<open>Image Producer and Voice Synthesizer\<close>

text \<open>
  The two remaining tools draw a UUID, produce their bytes and store them under a key
  made from the UUID. The drawing of the placeholder image and the speech synthesis are
  calls that may raise. Each tool is given the hex string \<open>u\<close> of its UUID and returns,
  with its result, the keys it has passed to \<^verbatim>\<open>put_object\<close>.
\<close>

record studio = media +
  render_png :: "string \<Rightarrow> exn + string"
  synthesize_speech :: "string \<Rightarrow> exn + string"

definition image_key_for :: "string \<Rightarrow> string" where
  "image_key_for u = ''generated_images/ref_image_'' @ u @ ''.png''"

definition audio_key_for :: "string \<Rightarrow> string" where
  "audio_key_for u = ''generated_audio/voiceover_'' @ u @ ''.mp3''"

definition create_reference_image ::
  "'a studio_scheme \<Rightarrow> string \<Rightarrow> string \<Rightarrow> (exn + string) \<times> string list" where
  "create_reference_image env u image_prompt =
     (let image_key = image_key_for u;
          overlay = ''Reference Image'' @ [CHR 0x0A] @ take 50 image_prompt @ ''...''
      in case render_png env overlay of
           Inl e \<Rightarrow> (Inl (''Failed to create reference image: '' @ e), [])
         | Inr img_bytes \<Rightarrow>
             (case put_object env (s3_bucket env) image_key of
                Inl e \<Rightarrow> (Inl (''Failed to create reference image: '' @ e), [image_key])
              | Inr _ \<Rightarrow> (Inr (s3_path (s3_bucket env) image_key), [image_key])))"

definition create_voiceover_audio ::
  "'a studio_scheme \<Rightarrow> string \<Rightarrow> string \<Rightarrow> (exn + string) \<times> string list" where
  "create_voiceover_audio env u audio_script =
     (let audio_key = audio_key_for u
      in case synthesize_speech env audio_script of
           Inl e \<Rightarrow> (Inl (''Failed to create voiceover: '' @ e), [])
         | Inr audio_stream \<Rightarrow>
             (case put_object env (s3_bucket env) audio_key of
                Inl e \<Rightarrow> (Inl (''Failed to create voiceover: '' @ e), [audio_key])
              | Inr _ \<Rightarrow> (Inr (s3_path (s3_bucket env) audio_key), [audio_key])))"

section \<open>Storage keys of a run\<close>

text \<open>
  The four UUIDs a run of the tools draws for what it stores, and what the four tools are
  called with.
\<close>

record run_uuids =
  image_uuid :: string
  video_uuid :: string
  audio_uuid :: string
  final_uuid :: string

record run_inputs =
  image_prompt_in :: string
  video_prompt_in :: string
  reference_image_in :: string
  audio_script_in :: string
  video_s3_path_in :: string
  audio_s3_path_in :: string
  disk_in :: disk

text \<open>The output locations handed to the video service in a trace.\<close>

fun output_uris :: "call list \<Rightarrow> string list" where
  "output_uris [] = []"
| "output_uris (StartAsyncInvoke p uri # cs) = uri # output_uris cs"
| "output_uris (c # cs) = output_uris cs"

text \<open>
  The locations at which a run stores: those of the keys its image, voiceover and merge
  tools pass to \<^verbatim>\<open>put_object\<close>, in the configured bucket, and every location under an
  output location its video tool hands to the service, which writes the generated video
  there.
\<close>

definition stores :: "'a studio_scheme \<Rightarrow> run_uuids \<Rightarrow> run_inputs \<Rightarrow> string \<Rightarrow> bool" where
  "stores env r x location =
     (location \<in> set (map (s3_path (s3_bucket env))
         (snd (create_reference_image env (image_uuid r) (image_prompt_in x))))
      \<or> list_ex (\<lambda>uri. prefix uri location)
           (output_uris (snd (create_video_with_nova_reel (aws.truncate env) (video_uuid r)
              (video_prompt_in x) (reference_image_in x))))
      \<or> location \<in> set (map (s3_path (s3_bucket env))
           (snd (create_voiceover_audio env (audio_uuid r) (audio_script_in x))))
      \<or> location \<in> set (map (s3_path (s3_bucket env))
           (merge_puts env (final_uuid r) (disk_in x) (video_s3_path_in x)
              (audio_s3_path_in x))))"

text \<open>
  A studio in which every call succeeds, the inputs of a run, and the UUIDs of three
  runs: the second differs from the first in every UUID, the third has drawn the image
  UUID of the first.
\<close>

definition working_studio :: studio where
  "working_studio =
     \<lparr> s3_bucket = ''ads'',
       download_fileobj = (\<lambda>bucket key. Inr ''bytes''),
       b64encode = (\<lambda>bytes. bytes),
       start_async_invoke = (\<lambda>p uri. Inr ''arn:job/1''),
       get_async_invoke = (\<lambda>arn n. Inr \<lparr> status = ''Completed'', failureMessage = None \<rparr>),
       list_objects_v2 = (\<lambda>bucket prefix. Inr []),
       NamedTemporaryFile = (\<lambda>i. if i = 0 then ''/tmp/tmpa.mp4''
                             else if i = 1 then ''/tmp/tmpb.mp3'' else ''/tmp/tmpc.mp4''),
       VideoFileClip = (\<lambda>name. Inr \<lparr> duration = 6, audio = None \<rparr>),
       AudioFileClip = (\<lambda>name. Inr \<lparr> duration = 5 / 2, audio = None \<rparr>),
       write_videofile = (\<lambda>c name. Inr ()),
       put_object = (\<lambda>bucket key. Inr ()),
       render_png = (\<lambda>overlay. Inr ''png''),
       synthesize_speech = (\<lambda>script. Inr ''mp3'') \<rparr>"

definition car_inputs :: run_inputs where
  "car_inputs =
     \<lparr> image_prompt_in = ''a red car'', video_prompt_in = ''the car drives'',
       reference_image_in = ''s3://ads/generated_images/ref_image_0a.png'',
       audio_script_in = ''Drive it.'',
       video_s3_path_in = ''s3://ads/generated_videos/video_0b/output.mp4'',
       audio_s3_path_in = ''s3://ads/generated_audio/voiceover_0c.mp3'',
       disk_in = {} \<rparr>"

definition first_draws :: run_uuids where
  "first_draws = \<lparr> image_uuid = ''0a'', video_uuid = ''0b'', audio_uuid = ''0c'',
                   final_uuid = ''0d'' \<rparr>"

definition second_draws :: run_uuids where
  "second_draws = \<lparr> image_uuid = ''1a'', video_uuid = ''1b'', audio_uuid = ''1c'',
                    final_uuid = ''1d'' \<rparr>"

definition colliding_draws :: run_uuids where
  "colliding_draws = second_draws\<lparr> image_uuid := ''0a'' \<rparr>"

text \<open>
  \<^verbatim>\<open>auto_video_ad.py\<close> and \<^verbatim>\<open>simple_video_ad.py\<close> name their objects after the clock:
  \<^verbatim>\<open>datetime.now().strftime('%Y%m%d_%H%M%S')\<close>, for a year of four digits.
\<close>

record datetime =
  year :: nat
  month :: nat
  day :: nat
  hour :: nat
  minute :: nat
  second :: nat
  microsecond :: nat

definition digit :: "nat \<Rightarrow> char" where
  "digit n = ''0123456789'' ! (n mod 10)"

definition strftime :: "datetime \<Rightarrow> string" where
  "strftime t =
     [digit (year t div 1000), digit (year t div 100), digit (year t div 10), digit (year t),
      digit (month t div 10), digit (month t), digit (day t div 10), digit (day t),
      CHR ''_'',
      digit (hour t div 10), digit (hour t), digit (minute t div 10), digit (minute t),
      digit (second t div 10), digit (second t)]"

definition auto_audio_s3_key :: "datetime \<Rightarrow> string" where
  "auto_audio_s3_key now = ''audio/ad_audio_'' @ strftime now @ ''.mp3''"

definition auto_final_s3_key :: "datetime \<Rightarrow> string" where
  "auto_final_s3_key now = ''final/ad_final_'' @ strftime now @ ''.mp4''"

definition simple_image_s3_key :: "datetime \<Rightarrow> string" where
  "simple_image_s3_key now = ''images/ad_image_'' @ strftime now @ ''.png''"

text \<open>
  The voiceover step of \<^verbatim>\<open>auto_video_ad.py\<close>, run when the clock reads \<open>now\<close>: the speech is
  synthesized and stored under the key of that second. The step has no handler. With
  its result it returns the keys it has passed to \<^verbatim>\<open>put_object\<close>.
\<close>

definition auto_audio_step ::
  "'a studio_scheme \<Rightarrow> datetime \<Rightarrow> string \<Rightarrow> (exn + string) \<times> string list" where
  "auto_audio_step env now audio_script =
     (case synthesize_speech env audio_script of
        Inl e \<Rightarrow> (Inl e, [])
      | Inr audio_stream \<Rightarrow>
          let audio_s3_key = auto_audio_s3_key now
          in (case put_object env (s3_bucket env) audio_s3_key of
                Inl e \<Rightarrow> (Inl e, [audio_s3_key])
              | Inr _ \<Rightarrow> (Inr (s3_path (s3_bucket env) audio_s3_key), [audio_s3_key])))"

text \<open>Two runs that reach the voiceover step within the same second.\<close>

definition first_run_clock :: datetime where
  "first_run_clock = \<lparr> year = 2025, month = 6, day = 1, hour = 12, minute = 0, second = 7,
                       microsecond = 100000 \<rparr>"

definition second_run_clock :: datetime where
  "second_run_clock = first_run_clock\<lparr> microsecond := 900000 \<rparr>"

section \<open>Pipeline Driver\<close>

text \<open>
  What a prompt to the agent is made from; the wording around these values is fixed.
\<close>

datatype agent_request =
    StrategyRequest string
  | ImageRequest json
  | VideoRequest json string
  | AudioRequest json
  | MergeRequest string string

text \<open>
  The agent and the five tools as the drivers call them, each returning or raising. The
  models of the tools above are instances, once their environment and UUIDs are fixed.
\<close>

record tools =
  agent :: "agent_request \<Rightarrow> exn + string"
  tool_generate_content_strategy :: "string \<Rightarrow> exn + json"
  tool_create_reference_image :: "json \<Rightarrow> exn + string"
  tool_create_video_with_nova_reel :: "json \<Rightarrow> string \<Rightarrow> exn + string"
  tool_create_voiceover_audio :: "json \<Rightarrow> exn + string"
  tool_merge_video_and_audio :: "string \<Rightarrow> string \<Rightarrow> exn + string"

text \<open>\<^verbatim>\<open>strategy_data[key]\<close>.\<close>

definition py_getitem :: "json \<Rightarrow> string \<Rightarrow> exn + json" where
  "py_getitem v key =
     (case v of
        JObject items \<Rightarrow>
          (case map_of items key of
             None \<Rightarrow> Inl ([CHR 0x27] @ key @ [CHR 0x27])
           | Some x \<Rightarrow> Inr x)
      | JString s \<Rightarrow> Inl ''string indices must be integers''
      | JArray xs \<Rightarrow> Inl ''list indices must be integers or slices''
      | _ \<Rightarrow> Inl ''object is not subscriptable'')"

datatype result_value =
    AgentResult string
  | StrategyData json
  | S3Path string
  | ErrorMessage string

type_synonym results = "string \<rightharpoonup> result_value"

text \<open>
  A step inside the \<^verbatim>\<open>try\<close> of \<^verbatim>\<open>create_video_advertisement\<close>: when it raises, the handler
  stores the message under \<^verbatim>\<open>error\<close> and returns the results gathered so far.
\<close>

definition attempt :: "exn + 'a \<Rightarrow> results \<Rightarrow> ('a \<Rightarrow> results) \<Rightarrow> results" where
  "attempt r results k =
     (case r of Inl e \<Rightarrow> results(''error'' \<mapsto> ErrorMessage e) | Inr v \<Rightarrow> k v)"

text \<open>\<^verbatim>\<open>create_video_advertisement\<close> of \<^verbatim>\<open>enhanced_agent_config.py\<close>.\<close>

definition create_video_advertisement :: "'a tools_scheme \<Rightarrow> string \<Rightarrow> results" where
  "create_video_advertisement env ad_description =
     attempt (agent env (StrategyRequest ad_description)) Map.empty (\<lambda>strategy_result.
     let r1 = [''strategy'' \<mapsto> AgentResult strategy_result] in
     attempt (tool_generate_content_strategy env ad_description) r1 (\<lambda>strategy_data.
     let r2 = r1(''strategy_data'' \<mapsto> StrategyData strategy_data) in
     attempt (py_getitem strategy_data ''image_prompt'') r2 (\<lambda>image_prompt.
     attempt (agent env (ImageRequest image_prompt)) r2 (\<lambda>image_result.
     let r3 = r2(''image'' \<mapsto> AgentResult image_result) in
     attempt (tool_create_reference_image env image_prompt) r3 (\<lambda>image_s3_path.
     let r4 = r3(''image_s3_path'' \<mapsto> S3Path image_s3_path) in
     attempt (py_getitem strategy_data ''video_prompt'') r4 (\<lambda>video_prompt.
     attempt (agent env (VideoRequest video_prompt image_s3_path)) r4 (\<lambda>video_result.
     let r5 = r4(''video'' \<mapsto> AgentResult video_result) in
     attempt (tool_create_video_with_nova_reel env video_prompt image_s3_path) r5
       (\<lambda>video_s3_path.
     let r6 = r5(''video_s3_path'' \<mapsto> S3Path video_s3_path) in
     attempt (py_getitem strategy_data ''audio_script'') r6 (\<lambda>audio_script.
     attempt (agent env (AudioRequest audio_script)) r6 (\<lambda>audio_result.
     let r7 = r6(''audio'' \<mapsto> AgentResult audio_result) in
     attempt (tool_create_voiceover_audio env audio_script) r7 (\<lambda>audio_s3_path.
     let r8 = r7(''audio_s3_path'' \<mapsto> S3Path audio_s3_path) in
     attempt (agent env (MergeRequest video_s3_path audio_s3_path)) r8 (\<lambda>merge_result.
     let r9 = r8(''merge'' \<mapsto> AgentResult merge_result) in
     attempt (tool_merge_video_and_audio env video_s3_path audio_s3_path) r9
       (\<lambda>final_s3_path.
     r9(''final_video_s3_path'' \<mapsto> S3Path final_s3_path))))))))))))))"

text \<open>The strategy and the four artifact references of a result, in pipeline order.\<close>

definition references :: "results \<Rightarrow> result_value option list" where
  "references r = map r [''strategy_data'', ''image_s3_path'', ''video_s3_path'',
                         ''audio_s3_path'', ''final_video_s3_path'']"

text \<open>
  A stage of the driver is a prompt to the agent followed by the call of the tool. It
  completes with a path when neither raises, and fails with a message when the agent
  raises it, or the tool does after the agent has answered.
\<close>

definition stage_ok :: "exn + string \<Rightarrow> exn + string \<Rightarrow> string \<Rightarrow> bool" where
  "stage_ok agent_response tool_result path = (\<not> isl agent_response \<and> tool_result = Inr path)"

definition stage_fails :: "exn + string \<Rightarrow> exn + string \<Rightarrow> exn \<Rightarrow> bool" where
  "stage_fails agent_response tool_result e =
     (agent_response = Inl e \<or> (\<not> isl agent_response \<and> tool_result = Inl e))"

subsection \<open>The driver of \<^verbatim>\<open>streamlit_agent.py\<close>\<close>

text \<open>
  \<^verbatim>\<open>re.search(r's3://[^\s"\)\]`]+', response_text)\<close>: the first place where \<^verbatim>\<open>s3://\<close> is
  followed by at least one character that is neither white space nor one of the four
  closing characters, and the longest run of such characters from there. White space is
  that of ASCII.
\<close>

definition ends_path :: "char \<Rightarrow> bool" where
  "ends_path c = (c \<in> set [CHR '' '', CHR 0x09, CHR 0x0A, CHR 0x0B, CHR 0x0C, CHR 0x0D,
                           CHR 0x1C, CHR 0x1D, CHR 0x1E, CHR 0x1F,
                           CHR 0x22, CHR '')'', CHR '']'', CHR ''`''])"

fun re_search_s3 :: "string \<Rightarrow> string option" where
  "re_search_s3 [] = None"
| "re_search_s3 (c # cs) =
     (let rest = drop 5 (c # cs)
      in if take 5 (c # cs) = ''s3://'' \<and> rest \<noteq> [] \<and> \<not> ends_path (hd rest)
         then Some (''s3://'' @ takeWhile (\<lambda>x. \<not> ends_path x) rest)
         else re_search_s3 cs)"

text \<open>\<^verbatim>\<open>s.strip(chars)\<close>.\<close>

definition py_strip :: "string \<Rightarrow> string \<Rightarrow> string" where
  "py_strip chars s =
     rev (dropWhile (\<lambda>c. c \<in> set chars) (rev (dropWhile (\<lambda>c. c \<in> set chars) s)))"

definition parse_s3_path_from_response :: "string \<Rightarrow> string option" where
  "parse_s3_path_from_response response_text =
     map_option (py_strip [CHR ''`'', CHR 0x22, CHR 0x27, CHR '' ''])
       (re_search_s3 response_text)"

text \<open>
  The agent side of this driver also parses the strategy out of the agent's answer:
  \<open>response_json_loads\<close> is \<^verbatim>\<open>json.loads\<close> and \<open>re_sub_fixes\<close> the two \<^verbatim>\<open>re.sub\<close> repairs
  applied before it.
\<close>

record agent_env = tools +
  response_json_loads :: "string \<Rightarrow> exn + json"
  re_sub_fixes :: "string \<Rightarrow> string"

definition parse_strategy_from_response ::
  "'a agent_env_scheme \<Rightarrow> string \<Rightarrow> string \<Rightarrow> json" where
  "parse_strategy_from_response env response_text ad_description =
     (let start = py_find CHR ''{'' response_text;
          end_idx = py_rfind CHR ''}'' response_text + 1
      in if start \<noteq> - 1 \<and> start < end_idx then
           (case response_json_loads env (re_sub_fixes env (py_slice response_text start end_idx))
            of Inl e \<Rightarrow> fallback_strategy ad_description
             | Inr strategy \<Rightarrow>
                 (case all_keys_in required_keys strategy of
                    Inl e \<Rightarrow> fallback_strategy ad_description
                  | Inr present \<Rightarrow>
                      if present then strategy else fallback_strategy ad_description))
         else fallback_strategy ad_description)"

text \<open>
  \<^verbatim>\<open>if not path: path = tool(...)\<close>: the tool is called when the answer held no path.
\<close>

definition path_or_call :: "string option \<Rightarrow> exn + string \<Rightarrow> exn + string" where
  "path_or_call parsed call =
     (case parsed of None \<Rightarrow> call | Some path \<Rightarrow> if path = [] then call else Inr path)"

definition raising :: "exn + 'a \<Rightarrow> ('a \<Rightarrow> exn + 'b) \<Rightarrow> exn + 'b" where
  "raising r k = (case r of Inl e \<Rightarrow> Inl e | Inr v \<Rightarrow> k v)"

text \<open>
  \<^verbatim>\<open>VideoAdAgent.create_video_ad\<close>: there is no handler, so an exception of the agent or of
  a tool leaves the method, and the values gathered up to there with it.
\<close>

definition create_video_ad :: "'a agent_env_scheme \<Rightarrow> string \<Rightarrow> exn + results" where
  "create_video_ad env ad_description =
     raising (agent env (StrategyRequest ad_description)) (\<lambda>strategy_response.
     let strategy_data = parse_strategy_from_response env strategy_response ad_description in
     raising (py_getitem strategy_data ''image_prompt'') (\<lambda>image_prompt.
     raising (agent env (ImageRequest image_prompt)) (\<lambda>image_response.
     raising (path_or_call (parse_s3_path_from_response image_response)
                (tool_create_reference_image env image_prompt)) (\<lambda>image_s3_path.
     raising (py_getitem strategy_data ''video_prompt'') (\<lambda>video_prompt.
     raising (agent env (VideoRequest video_prompt image_s3_path)) (\<lambda>video_response.
     raising (path_or_call (parse_s3_path_from_response video_response)
                (tool_create_video_with_nova_reel env video_prompt image_s3_path))
       (\<lambda>video_s3_path.
     raising (py_getitem strategy_data ''audio_script'') (\<lambda>audio_script.
     raising (agent env (AudioRequest audio_script)) (\<lambda>audio_response.
     raising (path_or_call (parse_s3_path_from_response audio_response)
                (tool_create_voiceover_audio env audio_script)) (\<lambda>audio_s3_path.
     raising (agent env (MergeRequest video_s3_path audio_s3_path)) (\<lambda>final_response.
     raising (path_or_call (parse_s3_path_from_response final_response)
                (tool_merge_video_and_audio env video_s3_path audio_s3_path))
       (\<lambda>final_s3_path.
     Inr [''strategy'' \<mapsto> StrategyData strategy_data,
          ''image_path'' \<mapsto> S3Path image_s3_path,
          ''video_path'' \<mapsto> S3Path video_s3_path,
          ''audio_path'' \<mapsto> S3Path audio_s3_path,
          ''final_path'' \<mapsto> S3Path final_s3_path]))))))))))))"

text \<open>
  An agent that answers without a path and tools of which the one numbered \<open>n\<close> raises
  (2 the image, 3 the video, 4 the voiceover, 5 the merge; any other number, none).
\<close>

definition failing_at :: "nat \<Rightarrow> agent_env" where
  "failing_at n =
     \<lparr> agent = (\<lambda>request. Inr ''Done.''),
       tool_generate_content_strategy = (\<lambda>ad_description. Inr (fallback_strategy ad_description)),
       tool_create_reference_image = (\<lambda>image_prompt.
          if n = 2 then Inl ''Failed to create reference image: AccessDenied''
          else Inr ''s3://ads/generated_images/ref_image_u1.png''),
       tool_create_video_with_nova_reel = (\<lambda>video_prompt image_s3_path.
          if n = 3 then Inl ''Failed to create video: Video generation failed: Unknown error''
          else Inr ''s3://ads/generated_videos/video_u2/output.mp4''),
       tool_create_voiceover_audio = (\<lambda>audio_script.
          if n = 4 then Inl ''Failed to create voiceover: AccessDenied''
          else Inr ''s3://ads/generated_audio/voiceover_u3.mp3''),
       tool_merge_video_and_audio = (\<lambda>video_s3_path audio_s3_path.
          if n = 5 then Inl ''Failed to merge video and audio: NoSuchKey''
          else Inr ''s3://ads/final_videos/ad_u4.mp4''),
       response_json_loads = (\<lambda>s. Inl ''Expecting value''),
       re_sub_fixes = (\<lambda>s. s) \<rparr>"

section \<open>Properties of the storage locators\<close>

lemma py_split_nonempty: "py_split c s \<noteq> []"
  by (induction s) (auto split: list.splits)

lemma py_split_append:
  "c \<notin> set a \<Longrightarrow> py_split c (a @ c # b) = a # py_split c b"
  by (induction a) (auto split: list.splits)

lemma py_join_Cons:
  "ps \<noteq> [] \<Longrightarrow> py_join sep (p # ps) = p @ sep @ py_join sep ps"
  by (cases ps) auto

lemma py_join_split: "py_join [c] (py_split c s) = s"
proof (induction s)
  case Nil
  show ?case by simp
next
  case (Cons x xs)
  show ?case
  proof (cases "x = c")
    case True
    with Cons show ?thesis by (simp add: py_join_Cons py_split_nonempty)
  next
    case False
    obtain y ys where ys: "py_split c xs = y # ys"
      using py_split_nonempty [of c xs] by (cases "py_split c xs") auto
    with Cons False show ?thesis by (cases ys) auto
  qed
qed

lemma split_s3_path:
  assumes "CHR ''/'' \<notin> set bucket"
  shows "py_split CHR ''/'' (s3_path bucket key) =
         ''s3:'' # [] # bucket # py_split CHR ''/'' key"
proof -
  have "py_split CHR ''/'' (bucket @ CHR ''/'' # key) = bucket # py_split CHR ''/'' key"
    using assms by (rule py_split_append)
  then show ?thesis by (simp add: s3_path_def)
qed

text \<open>
  C10. Parsing undoes formatting: for a bucket name without \<^verbatim>\<open>/\<close> and any key, the
  locator \<^verbatim>\<open>s3://bucket/key\<close> split on \<^verbatim>\<open>/\<close> has the bucket at index 2 and the key as the
  remaining pieces joined with \<^verbatim>\<open>/\<close>. The key may contain \<^verbatim>\<open>/\<close>, and the statement does not
  need it to be non-empty.
\<close>

theorem locator_roundtrip:
  assumes "CHR ''/'' \<notin> set bucket"
  shows "locator_bucket (s3_path bucket key) = Inr bucket
       \<and> locator_key (s3_path bucket key) = key"
  using py_join_split [of "CHR ''/''" key]
  by (simp add: locator_bucket_def locator_key_def split_s3_path [OF assms] Let_def)

theorem locator_roundtrip_witness:
  "CHR ''/'' \<notin> set ''ads''
   \<and> locator_bucket (s3_path ''ads'' ''generated_images/ref_image_0f.png'') = Inr ''ads''
   \<and> locator_key (s3_path ''ads'' ''generated_images/ref_image_0f.png'')
       = ''generated_images/ref_image_0f.png''"
  using locator_roundtrip [of "''ads''" "''generated_images/ref_image_0f.png''"] by simp

section \<open>Properties of the Video Job Runner\<close>

declare poll_loop.simps [simp del]

lemma logged_append: "logged cs (logged ds r) = logged (cs @ ds) r"
  by (simp add: logged_def)

lemma logged_Nil: "logged [] r = r"
  by (simp add: logged_def)

lemma submitted_prompts_append:
  "submitted_prompts (cs @ ds) = submitted_prompts cs @ submitted_prompts ds"
  by (induction cs rule: submitted_prompts.induct) simp_all

lemma status_queries_append:
  "status_queries (cs @ ds) = status_queries cs + status_queries ds"
  by (induction cs rule: status_queries.induct) simp_all

lemma status_queries_polls:
  "status_queries (concat (replicate k [GetAsyncInvoke arn, Sleep d])) = k"
  by (induction k) simp_all

lemma payload_text: "prompt_text (payload p image_base64) = truncated_prompt p"
  by (simp add: payload_def)

lemma first_mp4_find:
  "first_mp4 bucket keys =
     (case find (\<lambda>k. endswith k ''.mp4'') keys of
        None \<Rightarrow> Inl not_found_error
      | Some k \<Rightarrow> Inr (s3_path bucket k))"
  by (induction keys) simp_all

text \<open>One turn of the loop on a status that is neither \<^verbatim>\<open>Completed\<close> nor \<^verbatim>\<open>Failed\<close>.\<close>

lemma poll_loop_transient:
  assumes "elapsed < max_wait_time" and "transient (get_async_invoke env arn n)"
  shows "poll_loop env arn vk elapsed n =
         logged [GetAsyncInvoke arn, Sleep poll_interval]
           (poll_loop env arn vk (elapsed + poll_interval) (Suc n))"
  using assms by (subst poll_loop.simps) (auto simp: transient_def split: sum.splits)

text \<open>\<open>k\<close> such turns in a row, as long as each starts below the ceiling.\<close>

lemma poll_loop_skip:
  assumes "\<forall>i<k. transient (get_async_invoke env arn (n + i))"
      and "elapsed + poll_interval * k < max_wait_time + poll_interval"
  shows "poll_loop env arn vk elapsed n =
         logged (concat (replicate k [GetAsyncInvoke arn, Sleep poll_interval]))
           (poll_loop env arn vk (elapsed + poll_interval * k) (n + k))"
  using assms
proof (induction k arbitrary: elapsed n)
  case 0
  show ?case by (simp add: logged_Nil)
next
  case (Suc k)
  have tr: "transient (get_async_invoke env arn n)"
    using Suc.prems(1) by (metis add.right_neutral zero_less_Suc)
  have lt: "elapsed < max_wait_time"
    using Suc.prems(2) by simp
  have rest: "\<forall>i<k. transient (get_async_invoke env arn (Suc n + i))"
    using Suc.prems(1) by (metis Suc_less_eq add_Suc_shift)
  have bound: "(elapsed + poll_interval) + poll_interval * k < max_wait_time + poll_interval"
    using Suc.prems(2) by simp
  show ?case
    by (simp add: poll_loop_transient [OF lt tr] Suc.IH [OF rest bound] logged_append add.assoc)
qed

lemma poll_loop_start:
  assumes "\<forall>i<k. transient (get_async_invoke env arn i)" and "k \<le> 40"
  shows "poll_loop env arn vk 0 0 =
         logged (concat (replicate k [GetAsyncInvoke arn, Sleep poll_interval]))
           (poll_loop env arn vk (poll_interval * k) k)"
  using poll_loop_skip [of k env arn 0 0 vk] assms
  by (simp add: max_wait_time_def poll_interval_def)



lemma poll_loop_completed:
  assumes "\<forall>i<k. transient (get_async_invoke env arn i)" and "k < 40"
      and "get_async_invoke env arn k = Inr r" and "status r = ''Completed''"
      and "list_objects_v2 env (s3_bucket env) vk = Inr keys"
  shows "poll_loop env arn vk 0 0 =
         (first_mp4 (s3_bucket env) keys,
          concat (replicate k [GetAsyncInvoke arn, Sleep poll_interval])
            @ [GetAsyncInvoke arn, ListObjectsV2 (s3_bucket env) vk])"
proof -
  have "poll_loop env arn vk (poll_interval * k) k =
      (first_mp4 (s3_bucket env) keys, [GetAsyncInvoke arn, ListObjectsV2 (s3_bucket env) vk])"
    by (subst poll_loop.simps) (use assms in \<open>simp add: max_wait_time_def poll_interval_def\<close>)
  then show ?thesis
    using poll_loop_start [of k env arn vk] assms by (simp add: logged_def)
qed

text \<open>A \<^verbatim>\<open>Failed\<close> status raises the failure error, with the message of the service.\<close>

lemma poll_loop_failed:
  assumes "\<forall>i<k. transient (get_async_invoke env arn i)" and "k < 40"
      and "get_async_invoke env arn k = Inr r" and "status r = ''Failed''"
  shows "fst (poll_loop env arn vk 0 0) =
         Inl (failed_error (case failureMessage r of None \<Rightarrow> ''Unknown error'' | Some m \<Rightarrow> m))"
proof -
  have "fst (poll_loop env arn vk (poll_interval * k) k) =
      Inl (failed_error (case failureMessage r of None \<Rightarrow> ''Unknown error'' | Some m \<Rightarrow> m))"
    by (subst poll_loop.simps) (use assms in \<open>simp add: max_wait_time_def poll_interval_def\<close>)
  then show ?thesis
    using poll_loop_start [of k env arn vk] assms by (simp add: logged_def)
qed

text \<open>The loop itself never submits a job.\<close>

lemma poll_loop_no_submission:
  "submitted_prompts (snd (poll_loop env arn vk elapsed n)) = []"
proof (induction env arn vk elapsed n rule: poll_loop.induct)
  case (1 env arn vk elapsed n)
  show ?case
    by (subst poll_loop.simps)
       (use 1 in \<open>auto simp: logged_def split: sum.splits\<close>)
qed

text \<open>The run up to the first status query, when the image is fetched and the job accepted.\<close>

lemma create_video_started:
  assumes "locator_bucket ref = Inr b"
      and "download_fileobj env b (locator_key ref) = Inr img"
      and "start_async_invoke env (payload p (b64encode env img)) (output_s3_uri env u) = Inr arn"
  shows "create_video_body env u p ref =
         logged [DownloadFileobj b (locator_key ref),
                 StartAsyncInvoke (payload p (b64encode env img)) (output_s3_uri env u)]
           (poll_loop env arn (video_key_for u) 0 0)"
  using assms by (simp add: create_video_body_def)

lemma create_video_fst:
  "fst (create_video_with_nova_reel env u p ref) =
     (case fst (create_video_body env u p ref) of
        Inl e \<Rightarrow> Inl (create_video_error e) | Inr v \<Rightarrow> Inr v)"
  by (simp add: create_video_with_nova_reel_def split: prod.splits sum.splits)

lemma create_video_snd:
  "snd (create_video_with_nova_reel env u p ref) = snd (create_video_body env u p ref)"
  by (simp add: create_video_with_nova_reel_def split: prod.splits sum.splits)

text \<open>
  C5. Once the reference image is fetched, exactly one prompt is submitted to the video
  endpoint. For a video prompt of more than 512 characters it is the first 512
  characters; a prompt of at most 512 characters is submitted unchanged.
\<close>

theorem video_prompt_clipped:
  assumes "locator_bucket ref = Inr b"
      and "download_fileobj env b (locator_key ref) = Inr img"
  shows "submitted_prompts (snd (create_video_with_nova_reel env u p ref)) = [truncated_prompt p]
       \<and> (512 < length p \<longrightarrow> truncated_prompt p = take 512 p \<and> length (truncated_prompt p) = 512)
       \<and> (length p \<le> 512 \<longrightarrow> truncated_prompt p = p)"
proof -
  have body: "submitted_prompts (snd (create_video_body env u p ref)) = [truncated_prompt p]"
  proof (cases "start_async_invoke env (payload p (b64encode env img)) (output_s3_uri env u)")
    case (Inl e)
    with assms show ?thesis
      by (simp add: create_video_body_def logged_def payload_text)
  next
    case (Inr arn)
    show ?thesis
      by (simp add: create_video_started [OF assms Inr] logged_def submitted_prompts_append
          poll_loop_no_submission payload_text)
  qed
  then show ?thesis
    by (simp add: create_video_snd truncated_prompt_def)
qed

theorem video_prompt_clipped_witness:
  "submitted_prompts (snd (create_video_with_nova_reel in_progress_job ''u1''
      (replicate 600 CHR ''a'') ''s3://ads/img.png'')) = [replicate 512 CHR ''a'']
   \<and> submitted_prompts (snd (create_video_with_nova_reel in_progress_job ''u1''
      ''A car'' ''s3://ads/img.png'')) = [''A car'']"
  using video_prompt_clipped [of "''s3://ads/img.png''" "''ads''" in_progress_job "''png''"
      "''u1''" "replicate 600 CHR ''a''"]
    video_prompt_clipped [of "''s3://ads/img.png''" "''ads''" in_progress_job "''png''"
      "''u1''" "''A car''"]
  by (simp add: locator_bucket_def locator_key_def in_progress_job_def)



text \<open>
  C7. When the job is accepted and, after \<open>k < 40\<close> statuses that are not terminal, a
  query answers \<^verbatim>\<open>Completed\<close>, the run lists the output prefix and returns the locator of
  the first key ending in \<^verbatim>\<open>.mp4\<close>; with no such key it raises the error that the video
  file was not found. It has made \<open>k + 1\<close> status queries.
\<close>

theorem completed_output:
  assumes "locator_bucket ref = Inr b"
      and "download_fileobj env b (locator_key ref) = Inr img"
      and "start_async_invoke env (payload p (b64encode env img)) (output_s3_uri env u) = Inr arn"
      and "\<forall>i<k. transient (get_async_invoke env arn i)" and "k < 40"
      and "get_async_invoke env arn k = Inr r" and "status r = ''Completed''"
      and "list_objects_v2 env (s3_bucket env) (video_key_for u) = Inr keys"
  shows "fst (create_video_with_nova_reel env u p ref) =
           (case find (\<lambda>key. endswith key ''.mp4'') keys of
              None \<Rightarrow> Inl (create_video_error not_found_error)
            | Some key \<Rightarrow> Inr (s3_path (s3_bucket env) key))
       \<and> status_queries (snd (create_video_with_nova_reel env u p ref)) = Suc k"
  by (simp add: create_video_fst create_video_snd create_video_started [OF assms(1-3)]
      poll_loop_completed [OF assms(4-8)] logged_def status_queries_append status_queries_polls
      first_mp4_find split: option.splits)

theorem completed_output_witness:
  "fst (create_video_with_nova_reel completed_job ''u1'' ''A car'' ''s3://ads/img.png'')
     = Inr ''s3://ads/generated_videos/video_u1/output.mp4''
   \<and> status_queries (snd (create_video_with_nova_reel completed_job ''u1'' ''A car''
        ''s3://ads/img.png'')) = 4
   \<and> fst (create_video_with_nova_reel empty_output_job ''u1'' ''A car'' ''s3://ads/img.png'')
     = Inl ''Failed to create video: Video file not found in S3 after completion''"
  using completed_output [of "''s3://ads/img.png''" "''ads''" completed_job "''png''"
      "''A car''" "''u1''" "''arn:job/1''" 3 "\<lparr> status = ''Completed'', failureMessage = None \<rparr>"
      "[''generated_videos/video_u1/manifest.json'', ''generated_videos/video_u1/output.mp4'']"]
    completed_output [of "''s3://ads/img.png''" "''ads''" empty_output_job "''png''"
      "''A car''" "''u1''" "''arn:job/1''" 0 "\<lparr> status = ''Completed'', failureMessage = None \<rparr>"
      "[''generated_videos/video_u1/manifest.json'']"]
  by (simp add: locator_bucket_def locator_key_def completed_job_def empty_output_job_def
      output_s3_uri_def video_key_for_def transient_def create_video_error_def
      not_found_error_def endswith_def s3_path_def)




section \<open>Properties of the float arithmetic\<close>

lemma round_half_even_nonneg: "0 \<le> x \<Longrightarrow> 0 \<le> round_half_even x"
  by (auto simp: round_half_even_def Let_def)

lemma floor_le_round_half_even: "\<lfloor>x\<rfloor> \<le> round_half_even x"
  by (simp add: round_half_even_def Let_def)

text \<open>The integer nearest to \<open>x\<close>, and the even one of two equally near.\<close>

lemma round_half_even_eq:
  assumes "\<bar>x - of_int m\<bar> < 1 / 2 \<or> (\<bar>x - of_int m\<bar> = 1 / 2 \<and> even m)"
  shows "round_half_even x = m"
proof (cases "of_int m \<le> x")
  case True
  with assms have "\<lfloor>x\<rfloor> = m" by (intro floor_unique) auto
  with assms True show ?thesis by (auto simp: round_half_even_def Let_def)
next
  case False
  with assms have f: "\<lfloor>x\<rfloor> = m - 1" by (intro floor_unique) auto
  have "even m \<Longrightarrow> odd (m - 1)" by simp
  with assms False f show ?thesis
    by (auto simp: round_half_even_def Let_def)
qed

lemma bitlen_powi:
  assumes "0 < p"
  shows "2 powi (bitlen p - 1) \<le> (of_int p :: rat)" and "(of_int p :: rat) < 2 powi (bitlen p)"
proof -
  from bitlen_bounds [OF assms]
  have lo: "2 ^ nat (bitlen p - 1) \<le> p" and hi: "p < 2 ^ nat (bitlen p)" by simp_all
  have ge: "1 \<le> bitlen p" using assms bitlen_eq_zero_iff [of p] bitlen_nonneg [of p] by linarith
  have "(2 :: rat) ^ nat (bitlen p - 1) \<le> of_int p"
    using lo by (metis of_int_le_iff of_int_numeral of_int_power)
  then show "2 powi (bitlen p - 1) \<le> (of_int p :: rat)"
    using ge by (simp add: power_int_def)
  have "(of_int p :: rat) < 2 ^ nat (bitlen p)"
    using hi by (metis of_int_less_iff of_int_numeral of_int_power)
  then show "(of_int p :: rat) < 2 powi (bitlen p)"
    using ge by (simp add: power_int_def)
qed

text \<open>\<open>ilog2\<close> finds the binade of a positive rational, and there is only one.\<close>

lemma ilog2_bounds:
  assumes "0 < x"
  shows "2 powi (ilog2 x) \<le> x \<and> x < 2 powi (ilog2 x + 1)"
proof -
  obtain p q where pq: "quotient_of x = (p, q)" by (cases "quotient_of x")
  then have q: "0 < q" and x: "x = of_int p / of_int q"
    using quotient_of_denom_pos quotient_of_div by auto
  with assms have p: "0 < p" by (simp add: zero_less_divide_iff)
  let ?e = "bitlen p - bitlen q"
  note bp = bitlen_powi [OF p] and bq = bitlen_powi [OF q]
  have qpos: "0 < (of_int q :: rat)" using q by simp
  have "x < 2 powi (bitlen p) / 2 powi (bitlen q - 1)"
    unfolding x using bp(2) bq(1) qpos p
    by (intro frac_less) auto
  also have "\<dots> = 2 powi (?e + 1)"
    by (simp add: power_int_diff [symmetric] algebra_simps)
  finally have hi: "x < 2 powi (?e + 1)" .
  have "2 powi (bitlen p - 1) / 2 powi (bitlen q) < x"
    unfolding x using bp(1) bq(2) qpos p
    by (intro frac_less2) auto
  moreover have "2 powi (bitlen p - 1) / 2 powi (bitlen q) = (2 :: rat) powi (?e - 1)"
    by (simp add: power_int_diff [symmetric] algebra_simps)
  ultimately have lo: "2 powi (?e - 1) < x" by simp
  show ?thesis
  proof (cases "2 powi ?e \<le> x")
    case True
    with hi pq show ?thesis by (simp add: ilog2_def)
  next
    case False
    with lo pq show ?thesis by (simp add: ilog2_def)
  qed
qed

lemma powi_less_exponent:
  assumes "(2 :: rat) powi a < 2 powi b"
  shows "a < b"
proof (rule ccontr)
  assume "\<not> a < b"
  then have "b \<le> a" by simp
  then have "(2 :: rat) powi b \<le> 2 powi a" by (intro power_int_increasing) simp_all
  with assms show False by simp
qed

lemma ilog2_unique:
  assumes "0 < x" and "2 powi e \<le> x" and "x < 2 powi (e + 1)"
  shows "ilog2 x = e"
proof -
  from ilog2_bounds [OF assms(1)]
  have lo: "2 powi (ilog2 x) \<le> x" and hi: "x < 2 powi (ilog2 x + 1)" by simp_all
  have "(2 :: rat) powi e < 2 powi (ilog2 x + 1)" using assms(2) hi by simp
  then have a: "e < ilog2 x + 1" by (rule powi_less_exponent)
  have "(2 :: rat) powi (ilog2 x) < 2 powi (e + 1)" using assms(3) lo by simp
  then have b: "ilog2 x < e + 1" by (rule powi_less_exponent)
  from a b show ?thesis by simp
qed

text \<open>
  How a rounding is checked: \<open>x\<close> lies in the binade \<open>e\<close>, and \<open>m\<close> is the integer nearest to
  \<open>x\<close> in units of the spacing there.
\<close>

lemma round64_normal:
  assumes "0 < x" and "2 powi e \<le> x" and "x < 2 powi (e + 1)" and "- 1022 \<le> e"
      and "\<bar>x / 2 powi (e - 52) - of_int m\<bar> < 1 / 2
           \<or> (\<bar>x / 2 powi (e - 52) - of_int m\<bar> = 1 / 2 \<and> even m)"
      and "of_int m * 2 powi (e - 52) < (2 powi 1024 :: rat)"
  shows "round64 x = Some (of_int m * 2 powi (e - 52))"
proof -
  have a: "\<bar>x\<bar> = x" and s: "sgn x = 1" and n: "x \<noteq> 0"
    using assms(1) by simp_all
  have e: "max (ilog2 x) (- 1022) = e"
    using ilog2_unique [OF assms(1-3)] assms(4) by simp
  have m: "round_half_even (x / 2 powi (e - 52)) = m"
    using assms(5) by (rule round_half_even_eq)
  have "\<not> (2 powi 1024 :: rat) \<le> of_int m * 2 powi (e - 52)"
    using assms(6) by simp
  then show ?thesis
    unfolding round64_def Let_def a s e m using n by (simp only: if_False mult_1)
qed

lemma round64_overflow:
  assumes "2 powi 1024 \<le> x"
  shows "round64 x = None"
proof -
  have pos: "0 < x"
    using assms by (rule less_le_trans [rotated]) simp
  let ?e = "ilog2 x"
  from ilog2_bounds [OF pos] have lo: "2 powi ?e \<le> x" and hi: "x < 2 powi (?e + 1)"
    by simp_all
  have "(2 :: rat) powi 1024 < 2 powi (?e + 1)" using assms hi by simp
  then have big: "1024 \<le> ?e" using powi_less_exponent by fastforce
  then have e: "max ?e (- 1022) = ?e" by simp
  let ?quantum = "(2 :: rat) powi (?e - 52)"
  have q: "0 < ?quantum" by simp
  have "2 powi ?e / ?quantum \<le> x / ?quantum"
    using lo q by (simp add: divide_right_mono)
  moreover have "2 powi ?e / ?quantum = (2 :: rat) powi 52"
    by (simp add: power_int_diff [symmetric])
  ultimately have "(of_int (2 ^ 52) :: rat) \<le> x / ?quantum" by simp
  then have "2 ^ 52 \<le> \<lfloor>x / ?quantum\<rfloor>" by (simp only: le_floor_iff)
  then have "2 ^ 52 \<le> round_half_even (x / ?quantum)"
    using floor_le_round_half_even [of "x / ?quantum"] by linarith
  then have "(of_int (2 ^ 52) :: rat) \<le> of_int (round_half_even (x / ?quantum))"
    by (simp only: of_int_le_iff)
  then have rounded: "2 powi 52 * ?quantum \<le> of_int (round_half_even (x / ?quantum)) * ?quantum"
    using q by (simp add: mult_right_mono)
  have binade: "2 powi 52 * ?quantum = (2 :: rat) powi ?e"
    by (subst power_int_add [symmetric]) simp_all
  have "(2 :: rat) powi 1024 \<le> 2 powi ?e"
    using big by (intro power_int_increasing) simp_all
  then have "2 powi 1024 \<le> of_int (round_half_even (x / ?quantum)) * ?quantum"
    using rounded unfolding binade by (rule order_trans)
  then show ?thesis
    using pos by (simp add: round64_def Let_def e)
qed

text \<open>A rounded value of a value that is not negative is not negative.\<close>

lemma round64_nonneg:
  assumes "0 \<le> x" and "round64 x = Some y"
  shows "0 \<le> y"
proof (cases "x = 0")
  case True
  with assms show ?thesis by (simp add: round64_def)
next
  case False
  with assms(1) have pos: "0 < x" by simp
  let ?quantum = "2 powi (max (ilog2 \<bar>x\<bar>) (- 1022) - 52) :: rat"
  have q: "0 < ?quantum" by simp
  have "0 \<le> round_half_even (\<bar>x\<bar> / ?quantum)"
    using pos q by (intro round_half_even_nonneg) simp
  then have "0 \<le> of_int (round_half_even (\<bar>x\<bar> / ?quantum)) * ?quantum"
    using q by simp
  with assms(2) False pos show ?thesis
    by (auto simp: round64_def Let_def split: if_splits)
qed

lemma float_add_normal:
  assumes "0 < x + y" and "2 powi e \<le> x + y" and "x + y < 2 powi (e + 1)" and "- 1022 \<le> e"
      and "\<bar>(x + y) / 2 powi (e - 52) - of_int m\<bar> < 1 / 2
           \<or> (\<bar>(x + y) / 2 powi (e - 52) - of_int m\<bar> = 1 / 2 \<and> even m)"
      and "of_int m * 2 powi (e - 52) < (2 powi 1024 :: rat)"
  shows "float_add x y = of_int m * 2 powi (e - 52)"
  using round64_normal [OF assms] by (simp add: float_add_def)

text \<open>6 / 2.5 is the float nearest to 2.4, and 1.2 / 0.2 the float just below 6.\<close>

lemma float_div_6: "float_div 6 (5 / 2) = Some (5404319552844595 / 2 ^ 51)"
  using round64_normal [of "12 / 5" 1 5404319552844595]
  by (simp add: float_div_def)

lemma float_div_1_2: "float_div float_1_2 float_0_2 = Some (6755399441055743 / 2 ^ 50)"
  using round64_normal [of "float_1_2 / float_0_2" 2 6755399441055743]
  by (simp add: float_div_def float_1_2_def float_0_2_def)

text \<open>6 divided by the float nearest to 0.1 is 60, though the exact quotient is below 60.\<close>

lemma float_div_6_by_0_1: "float_div 6 (3602879701896397 / 2 ^ 55) = Some 60"
  using round64_normal [of "6 / (3602879701896397 / 2 ^ 55)" 5 8444249301319680]
  by (simp add: float_div_def)

lemma loops_6_by_0_1:
  "loops_needed \<lparr> duration = 6, audio = None \<rparr>
     \<lparr> duration = 3602879701896397 / 2 ^ 55, audio = None \<rparr> = Inr 61"
  using float_div_6_by_0_1 by (simp add: loops_needed_def py_int_def)

text \<open>Six times 0.2, added one after the other, is the float 1.2.\<close>

lemma six_times_0_2: "foldl float_add 0 (replicate 6 float_0_2) = float_1_2"
proof -
  define s2 :: rat where "s2 = 3602879701896397 / 2 ^ 53"
  define s3 :: rat where "s3 = 5404319552844596 / 2 ^ 53"
  define s4 :: rat where "s4 = 7205759403792794 / 2 ^ 53"
  have a1: "float_add 0 float_0_2 = float_0_2"
    using float_add_normal [of 0 float_0_2 "- 3" 7205759403792794]
    by (simp add: float_0_2_def)
  have a2: "float_add float_0_2 float_0_2 = s2"
    using float_add_normal [of float_0_2 float_0_2 "- 2" 7205759403792794]
    by (simp add: float_0_2_def s2_def)
  have a3: "float_add s2 float_0_2 = s3"
    using float_add_normal [of s2 float_0_2 "- 1" 5404319552844596]
    by (simp add: float_0_2_def s2_def s3_def)
  have a4: "float_add s3 float_0_2 = s4"
    using float_add_normal [of s3 float_0_2 "- 1" 7205759403792794]
    by (simp add: float_0_2_def s3_def s4_def)
  have a5: "float_add s4 float_0_2 = 1"
    using float_add_normal [of s4 float_0_2 0 4503599627370496]
    by (simp add: float_0_2_def s4_def)
  have a6: "float_add 1 float_0_2 = float_1_2"
    using float_add_normal [of 1 float_0_2 0 5404319552844595]
    by (simp add: float_0_2_def float_1_2_def)
  have "replicate 6 float_0_2
      = [float_0_2, float_0_2, float_0_2, float_0_2, float_0_2, float_0_2]"
    by (simp add: numeral_eq_Suc)
  then show ?thesis
    by (simp only: foldl.simps a1 a2 a3 a4 a5 a6)
qed

section \<open>Properties of the Merge Stage\<close>

lemma duration_subclip: "duration (subclip c 0 t) = t"
  by (simp add: subclip_def)

text \<open>
  C3, as the code has it. In \<^verbatim>\<open>merge_video_and_audio\<close>, for an audio clip of positive
  duration and a float quotient \<open>V / A\<close> that is finite: audio longer than the video is cut
  to the video's duration; audio shorter than the video is concatenated with itself
  \<open>int(V / A) + 1\<close> times, at least once, and then cut to the video's duration; audio of
  the same duration is kept; the merged clip always lasts as long as the video. The
  merge step of \<^verbatim>\<open>auto_video_ad.py\<close> instead produces a clip lasting the shorter of the two
  durations.
\<close>

theorem merge_duration_policy:
  assumes "0 < duration audio_clip"
      and "duration audio_clip < duration video_clip \<longrightarrow>
             float_div (duration video_clip) (duration audio_clip) \<noteq> None"
  shows "(\<exists>adjusted.
           adjust_audio video_clip audio_clip = Inr adjusted
         \<and> final_video video_clip audio_clip = Inr (set_audio video_clip adjusted)
         \<and> duration adjusted = duration video_clip
         \<and> duration (set_audio video_clip adjusted) = duration video_clip
         \<and> (duration video_clip < duration audio_clip \<longrightarrow>
              adjusted = subclip audio_clip 0 (duration video_clip))
         \<and> (duration audio_clip < duration video_clip \<longrightarrow>
              (\<exists>ratio.
                 float_div (duration video_clip) (duration audio_clip) = Some ratio
                 \<and> 0 < py_int ratio + 1
                 \<and> loops_needed video_clip audio_clip = Inr (py_int ratio + 1)
                 \<and> adjusted = subclip (concatenate_audioclips
                                  (replicate (nat (py_int ratio + 1)) audio_clip))
                                0 (duration video_clip))))
       \<and> duration (auto_final_clip video_clip audio_clip)
           = min (duration video_clip) (duration audio_clip)"
proof -
  have auto_variant: "duration (auto_final_clip video_clip audio_clip)
      = min (duration video_clip) (duration audio_clip)"
    by (simp add: auto_final_clip_def subclip_def set_audio_def Let_def)
  consider (longer) "duration video_clip < duration audio_clip"
    | (shorter) "duration audio_clip < duration video_clip"
    | (same) "duration audio_clip = duration video_clip"
    by linarith
  then show ?thesis
  proof cases
    case longer
    then show ?thesis
      using auto_variant
      by (simp add: adjust_audio_def final_video_def subclip_def set_audio_def)
  next
    case shorter
    with assms(2) obtain ratio
      where q: "float_div (duration video_clip) (duration audio_clip) = Some ratio"
      by auto
    have "0 \<le> duration video_clip / duration audio_clip"
      using assms(1) shorter by simp
    then have "0 \<le> ratio"
      using q unfolding float_div_def by (rule round64_nonneg)
    then have pos: "0 < py_int ratio + 1"
      by (simp add: py_int_def)
    have ln: "loops_needed video_clip audio_clip = Inr (py_int ratio + 1)"
      using assms(1) q by (simp add: loops_needed_def)
    from shorter q pos ln show ?thesis
      using auto_variant
      by (simp add: adjust_audio_def final_video_def set_audio_def duration_subclip)
  next
    case same
    then show ?thesis
      using auto_variant
      by (simp add: adjust_audio_def final_video_def set_audio_def)
  qed
qed

text \<open>
  The two examples of the specification: a 6-second video with a 2.5-second voiceover
  (looped 3 times) and with a 9-second one.
\<close>

theorem merge_duration_policy_witness:
  "final_video \<lparr> duration = 6, audio = None \<rparr> \<lparr> duration = 5 / 2, audio = None \<rparr>
     = Inr \<lparr> duration = 6, audio = Some 6 \<rparr>
   \<and> loops_needed \<lparr> duration = 6, audio = None \<rparr> \<lparr> duration = 5 / 2, audio = None \<rparr> = Inr 3
   \<and> final_video \<lparr> duration = 6, audio = None \<rparr> \<lparr> duration = 9, audio = None \<rparr>
     = Inr \<lparr> duration = 6, audio = Some 6 \<rparr>"
proof -
  define c :: rat where "c = 5404319552844595 / 2 ^ 51"
  have fd: "float_div 6 (5 / 2) = Some c"
    using float_div_6 by (simp add: c_def)
  have c: "py_int c = 2"
    by (simp add: c_def py_int_def floor_eq_iff)
  have short: "final_video \<lparr> duration = 6, audio = None \<rparr> \<lparr> duration = 5 / 2, audio = None \<rparr>
      = Inr \<lparr> duration = 6, audio = Some 6 \<rparr>
    \<and> loops_needed \<lparr> duration = 6, audio = None \<rparr> \<lparr> duration = 5 / 2, audio = None \<rparr>
      = Inr 3"
    using merge_duration_policy [of "\<lparr> duration = 5 / 2, audio = None \<rparr>"
        "\<lparr> duration = 6, audio = None \<rparr>"]
    by (auto simp: set_audio_def fd c)
  have long: "final_video \<lparr> duration = 6, audio = None \<rparr> \<lparr> duration = 9, audio = None \<rparr>
      = Inr \<lparr> duration = 6, audio = Some 6 \<rparr>"
    using merge_duration_policy [of "\<lparr> duration = 9, audio = None \<rparr>"
        "\<lparr> duration = 6, audio = None \<rparr>"]
    by (auto simp: set_audio_def)
  from short long show ?thesis by simp
qed

text \<open>
  The claim as the specification states it fails in four ways. The merge step of
  \<^verbatim>\<open>auto_video_ad.py\<close> turns a 6-second video and a 2.5-second voiceover into a
  2.5-second clip. \<^verbatim>\<open>merge_video_and_audio\<close> raises on a voiceover of 0 seconds, and on
  durations whose float quotient is infinite. For a video of 1.2 and a voiceover of 0.2
  seconds, as floats, it concatenates 6 copies, which last 1.2 seconds, not longer.
\<close>

theorem merge_duration_counterexample:
  "duration (auto_final_clip \<lparr> duration = 6, audio = None \<rparr> \<lparr> duration = 5 / 2, audio = None \<rparr>)
     = 5 / 2
   \<and> final_video \<lparr> duration = 6, audio = None \<rparr> \<lparr> duration = 0, audio = None \<rparr>
     = Inl ''float division by zero''
   \<and> final_video \<lparr> duration = 2 ^ 1023, audio = None \<rparr> \<lparr> duration = 1 / 2 ^ 1000, audio = None \<rparr>
     = Inl ''cannot convert float infinity to integer''
   \<and> loops_needed video_1_2 audio_0_2 = Inr 6
   \<and> duration (concatenate_audioclips (replicate 6 audio_0_2)) = duration video_1_2"
proof -
  have auto_step: "duration (auto_final_clip \<lparr> duration = 6, audio = None \<rparr>
      \<lparr> duration = 5 / 2, audio = None \<rparr>) = 5 / 2"
    by (simp add: auto_final_clip_def subclip_def set_audio_def Let_def)
  have zero: "final_video \<lparr> duration = 6, audio = None \<rparr> \<lparr> duration = 0, audio = None \<rparr>
      = Inl ''float division by zero''"
    by (simp add: final_video_def adjust_audio_def loops_needed_def)
  have "float_div (2 ^ 1023) (1 / 2 ^ 1000) = None"
    unfolding float_div_def by (rule round64_overflow) simp
  then have infinite: "final_video \<lparr> duration = 2 ^ 1023, audio = None \<rparr>
      \<lparr> duration = 1 / 2 ^ 1000, audio = None \<rparr> = Inl ''cannot convert float infinity to integer''"
    by (simp add: final_video_def adjust_audio_def loops_needed_def)
  have "py_int (6755399441055743 / 2 ^ 50) = 5"
    by (simp add: py_int_def floor_eq_iff)
  then have loops: "loops_needed video_1_2 audio_0_2 = Inr 6"
    using float_div_1_2
    by (simp add: loops_needed_def video_1_2_def audio_0_2_def float_0_2_def)
  have sum: "duration (concatenate_audioclips (replicate 6 audio_0_2)) = duration video_1_2"
    using six_times_0_2
    by (simp add: concatenate_audioclips_def audio_0_2_def video_1_2_def)
  from auto_step zero infinite loops sum show ?thesis by simp
qed

text \<open>
  C1 fails on the code. When the audio object cannot be downloaded,
  \<^verbatim>\<open>merge_video_and_audio\<close> raises and the two temporary files it had created are still
  on the disk.
\<close>

theorem merge_leaves_temporaries:
  "merge_video_and_audio missing_audio ''u4'' {}
     ''s3://ads/generated_videos/video_u1/output.mp4''
     ''s3://ads/generated_audio/voiceover_u3.mp3''
   = (Inl ''Failed to merge video and audio: NoSuchKey'', {''/tmp/tmpa.mp4'', ''/tmp/tmpb.mp3''})"
  by (simp add: merge_video_and_audio_def merge_body_def on_success_def locator_bucket_def
      locator_key_def missing_audio_def merge_error_def Let_def)

text \<open>The same holds of every failing invocation, whichever step raises.\<close>

lemma merge_failure_keeps_files:
  assumes "fst (merge_video_and_audio env u d video_s3_path audio_s3_path) = Inl e"
  shows "{NamedTemporaryFile env 0, NamedTemporaryFile env 1}
           \<subseteq> snd (merge_video_and_audio env u d video_s3_path audio_s3_path)"
  using assms
  by (auto simp: merge_video_and_audio_def merge_body_def on_success_def Let_def
      split: sum.splits prod.splits)

text \<open>Only an invocation that returns has removed its three files.\<close>

lemma merge_success_removes_files:
  assumes "fst (merge_video_and_audio env u d video_s3_path audio_s3_path) = Inr p"
  shows "snd (merge_video_and_audio env u d video_s3_path audio_s3_path)
           \<inter> {NamedTemporaryFile env 0, NamedTemporaryFile env 1, NamedTemporaryFile env 2} = {}"
  using assms
  by (auto simp: merge_video_and_audio_def merge_body_def on_success_def Let_def
      split: sum.splits prod.splits)

lemma merge_success_example:
  "merge_video_and_audio working_media ''u4'' {}
     ''s3://ads/generated_videos/video_u1/output.mp4''
     ''s3://ads/generated_audio/voiceover_u3.mp3''
   = (Inr ''s3://ads/final_videos/ad_u4.mp4'', {})"
  using float_div_6
  by (simp add: merge_video_and_audio_def merge_body_def on_success_def locator_bucket_def
      locator_key_def missing_audio_def working_media_def Let_def final_video_def
      adjust_audio_def loops_needed_def s3_path_def final_video_key_for_def)

text \<open>The tool stores under no other key than the one of its UUID.\<close>

lemma merge_puts_key:
  "set (merge_puts env u d video_s3_path audio_s3_path) \<subseteq> {final_video_key_for u}"
  by (auto simp: merge_puts_def merge_body_def on_success_def Let_def split: sum.splits)

text \<open>
  The merge step of \<^verbatim>\<open>auto_video_ad.py\<close>, which cleans up in a \<^verbatim>\<open>finally\<close> block, leaves
  none of its three files behind, whether it raised or not.
\<close>

lemma auto_merge_cleans_up:
  "snd (auto_merge_step env unique_id d video_s3_key audio_s3_key final_s3_key)
     \<inter> {''temp_video_'' @ unique_id @ ''.mp4'', ''temp_audio_'' @ unique_id @ ''.mp3'',
         ''final_video_'' @ unique_id @ ''.mp4''} = {}"
  by (auto simp: auto_merge_step_def split: prod.splits)

section \<open>Properties of the Strategy Generator\<close>

lemma py_find_range:
  "py_find c s = - 1 \<or> (0 \<le> py_find c s \<and> nat (py_find c s) < length s \<and> s ! nat (py_find c s) = c)"
proof (induction s)
  case Nil
  show ?case by simp
next
  case (Cons x xs)
  show ?case
  proof (cases "x = c")
    case True
    then show ?thesis by simp
  next
    case False
    from Cons show ?thesis
    proof
      assume "py_find c xs = - 1"
      with False show ?thesis by simp
    next
      assume a: "0 \<le> py_find c xs \<and> nat (py_find c xs) < length xs \<and> xs ! nat (py_find c xs) = c"
      then have "nat (py_find c xs + 1) = Suc (nat (py_find c xs))" by arith
      with a False show ?thesis by (simp add: Let_def)
    qed
  qed
qed

lemma py_rfind_range:
  "py_rfind c s = - 1 \<or> (0 \<le> py_rfind c s \<and> nat (py_rfind c s) < length s \<and> s ! nat (py_rfind c s) = c)"
proof -
  let ?r = "py_find c (rev s)"
  from py_find_range [of c "rev s"] show ?thesis
  proof
    assume "?r = - 1"
    then show ?thesis by (simp add: py_rfind_def)
  next
    assume a: "0 \<le> ?r \<and> nat ?r < length (rev s) \<and> rev s ! nat ?r = c"
    then have lt: "nat ?r < length s" by simp
    have idx: "nat (int (length s) - 1 - ?r) = length s - Suc (nat ?r)"
      using a by arith
    have "rev s ! nat ?r = s ! (length s - Suc (nat ?r))"
      using lt by (rule rev_nth)
    with a lt idx show ?thesis
      by (auto simp: py_rfind_def Let_def)
  qed
qed

text \<open>
  What the slice between the first opening and the last closing brace can be: nothing,
  a text that begins with an opening brace, or a lone closing brace.
\<close>

lemma json_str_shape:
  "json_str content = [] \<or> hd (json_str content) = CHR ''{'' \<or> json_str content = ''}''"
proof -
  let ?n = "length content"
  let ?f = "py_find CHR ''{'' content"
  let ?r = "py_rfind CHR ''}'' content"
  let ?stop = "py_index ?n (?r + 1)"
  from py_find_range [of "CHR ''{''" content] show ?thesis
  proof
    assume found: "0 \<le> ?f \<and> nat ?f < ?n \<and> content ! nat ?f = CHR ''{''"
    then have start: "py_index ?n ?f = nat ?f" by (simp add: py_index_def)
    show ?thesis
    proof (cases "?stop - nat ?f")
      case 0
      then show ?thesis by (simp add: json_str_def py_slice_def start Let_def)
    next
      case (Suc k)
      have "hd (take (Suc k) (drop (nat ?f) content)) = content ! nat ?f"
        using found by (simp add: hd_drop_conv_nth)
      then show ?thesis using found Suc by (simp add: json_str_def py_slice_def start Let_def)
    qed
  next
    assume none: "?f = - 1"
    show ?thesis
    proof (cases "content = []")
      case True
      then show ?thesis by (simp add: json_str_def py_slice_def Let_def)
    next
      case False
      then have start: "py_index ?n ?f = ?n - 1"
        using none by (simp add: py_index_def max_def nat_diff_distrib')
      have last: "drop (?n - 1) content = [content ! (?n - 1)]"
        using False by (metis One_nat_def append_butlast_last_id butlast_conv_take diff_less
            drop_all drop_eq_Nil2 last_conv_nth le_refl length_greater_0_conv
            length_butlast append_eq_conv_conj zero_less_one)
      from py_rfind_range [of "CHR ''}''" content] show ?thesis
      proof
        assume "?r = - 1"
        then have "?stop = 0" by (simp add: py_index_def)
        then show ?thesis by (simp add: json_str_def py_slice_def Let_def)
      next
        assume r: "0 \<le> ?r \<and> nat ?r < ?n \<and> content ! nat ?r = CHR ''}''"
        then have stop: "?stop = Suc (nat ?r)"
          by (simp add: py_index_def nat_add_distrib)
        show ?thesis
        proof (cases "Suc (nat ?r) = ?n")
          case True
          then have "nat ?r = ?n - 1" by simp
          with r have "content ! (?n - 1) = CHR ''}''" by simp
          moreover have "?stop - (?n - 1) = 1" using stop True by simp
          ultimately show ?thesis
            using last by (simp add: json_str_def py_slice_def Let_def start)
        next
          case False
          then have "?stop - (?n - 1) = 0" using stop r by simp
          then show ?thesis by (simp add: json_str_def py_slice_def Let_def start)
        qed
      qed
    qed
  qed
qed


lemma all_keys_in_object:
  "all_keys_in keys (JObject items) = Inr (\<forall>key \<in> set keys. key \<in> set (map fst items))"
  by (induction keys) (simp_all add: py_in_def)

lemma loaded_object:
  assumes "json_conformant loads" and "loads (json_str content) = Inr v"
  shows "\<exists>items. v = JObject items"
proof -
  from assms have ne: "json_str content \<noteq> []" and nb: "hd (json_str content) \<noteq> CHR ''}''"
    and ob: "hd (json_str content) = CHR ''{'' \<longrightarrow> (\<exists>items. v = JObject items)"
    unfolding json_conformant_def by blast+
  from json_str_shape [of content] ne nb have "hd (json_str content) = CHR ''{''"
    by auto
  with ob show ?thesis by simp
qed

lemma fallback_fields:
  "\<forall>key \<in> set required_keys.
     has_field (fallback_strategy ad) key \<and> nonempty_field (fallback_strategy ad) key"
  by (simp add: required_keys_def fallback_strategy_def has_field_def nonempty_field_def
      fallback_image_prompt_def fallback_video_prompt_def fallback_audio_script_def)

text \<open>
  C4, as the code has it. With a \<^verbatim>\<open>json.loads\<close> that behaves as described above, the
  Strategy Generator always returns, and what it returns has the three keys
  \<^verbatim>\<open>image_prompt\<close>, \<^verbatim>\<open>video_prompt\<close> and \<^verbatim>\<open>audio_script\<close>: it is the fallback built from the
  description, or the object parsed from the model's answer. It is the fallback when the
  generation call fails, when the answer cannot be parsed, and when a required key is
  missing. When the call succeeds, the answer parses and the three keys are present, it
  is the parsed object, as it came. The three values of the fallback are non-empty
  strings.
\<close>

theorem strategy_always_returned:
  assumes "json_conformant (json_loads env)"
  shows "(\<exists>strategy. generate_content_strategy env ad = Inr strategy
            \<and> (\<forall>key \<in> set required_keys. has_field strategy key)
            \<and> (strategy = fallback_strategy ad
                \<or> (\<exists>content. invoke_model env ad = Inr content
                      \<and> json_loads env (json_str content) = Inr strategy)))
       \<and> (\<forall>e. invoke_model env ad = Inl e \<longrightarrow>
             generate_content_strategy env ad = Inr (fallback_strategy ad))
       \<and> (\<forall>content e. invoke_model env ad = Inr content
             \<and> json_loads env (json_str content) = Inl e \<longrightarrow>
             generate_content_strategy env ad = Inr (fallback_strategy ad))
       \<and> (\<forall>content v key. invoke_model env ad = Inr content
             \<and> json_loads env (json_str content) = Inr v
             \<and> key \<in> set required_keys \<and> \<not> has_field v key \<longrightarrow>
             generate_content_strategy env ad = Inr (fallback_strategy ad))
       \<and> (\<forall>content v. invoke_model env ad = Inr content
             \<and> json_loads env (json_str content) = Inr v
             \<and> (\<forall>key \<in> set required_keys. has_field v key) \<longrightarrow>
             generate_content_strategy env ad = Inr v)
       \<and> (\<forall>key \<in> set required_keys. nonempty_field (fallback_strategy ad) key)"
proof (intro conjI allI impI ballI)
  show "\<exists>strategy. generate_content_strategy env ad = Inr strategy
            \<and> (\<forall>key \<in> set required_keys. has_field strategy key)
            \<and> (strategy = fallback_strategy ad
                \<or> (\<exists>content. invoke_model env ad = Inr content
                      \<and> json_loads env (json_str content) = Inr strategy))"
  proof (cases "generate_body env ad")
    case (Inl e)
    then show ?thesis
      using fallback_fields [of ad] by (simp add: generate_content_strategy_def)
  next
    case (Inr strategy)
    then obtain content where c: "invoke_model env ad = Inr content"
      and l: "json_loads env (json_str content) = Inr strategy"
      and k: "all_keys_in required_keys strategy = Inr True"
      by (auto simp: generate_body_def split: sum.splits if_splits)
    from loaded_object [OF assms l] obtain items where "strategy = JObject items" ..
    with k have "\<forall>key \<in> set required_keys. has_field strategy key"
      by (simp add: all_keys_in_object has_field_def)
    with Inr c l show ?thesis by (simp add: generate_content_strategy_def)
  qed
next
  fix e assume "invoke_model env ad = Inl e"
  then show "generate_content_strategy env ad = Inr (fallback_strategy ad)"
    by (simp add: generate_content_strategy_def generate_body_def)
next
  fix content e
  assume "invoke_model env ad = Inr content \<and> json_loads env (json_str content) = Inl e"
  then show "generate_content_strategy env ad = Inr (fallback_strategy ad)"
    by (simp add: generate_content_strategy_def generate_body_def)
next
  fix content v key
  assume a: "invoke_model env ad = Inr content \<and> json_loads env (json_str content) = Inr v
             \<and> key \<in> set required_keys \<and> \<not> has_field v key"
  then obtain items where v: "v = JObject items"
    using loaded_object [OF assms] by blast
  with a have "all_keys_in required_keys v = Inr False"
    by (auto simp: all_keys_in_object has_field_def)
  with a show "generate_content_strategy env ad = Inr (fallback_strategy ad)"
    by (simp add: generate_content_strategy_def generate_body_def)
next
  fix content v
  assume a: "invoke_model env ad = Inr content \<and> json_loads env (json_str content) = Inr v
             \<and> (\<forall>key \<in> set required_keys. has_field v key)"
  then obtain items where v: "v = JObject items"
    using loaded_object [OF assms] by blast
  with a have "all_keys_in required_keys v = Inr True"
    by (simp add: all_keys_in_object has_field_def)
  with a show "generate_content_strategy env ad = Inr v"
    by (simp add: generate_content_strategy_def generate_body_def)
next
  fix key assume "key \<in> set required_keys"
  then show "nonempty_field (fallback_strategy ad) key"
    using fallback_fields [of ad] by simp
qed

lemma conformant_failing: "json_conformant (\<lambda>s. Inl e)"
  by (simp add: json_conformant_def)

lemma conformant_missing_key: "json_conformant (json_loads missing_key_model)"
  by (simp add: json_conformant_def missing_key_model_def missing_key_text_def)

lemma conformant_empty_fields: "json_conformant (json_loads empty_fields_model)"
  by (simp add: json_conformant_def empty_fields_model_def empty_fields_text_def)

lemma json_str_missing_key: "json_str missing_key_text = missing_key_text"
  by (simp add: json_str_def missing_key_text_def py_rfind_def py_slice_def py_index_def Let_def)

lemma conformant_complete: "json_conformant (json_loads complete_model)"
  by (simp add: json_conformant_def complete_model_def complete_text_def complete_strategy_def)

lemma json_str_complete:
  "json_str (''Here it is: '' @ complete_text @ '' Enjoy!'') = complete_text"
  by (simp add: json_str_def complete_text_def py_rfind_def py_slice_def py_index_def Let_def)

theorem strategy_always_returned_witness:
  "generate_content_strategy failing_model ''a car'' = Inr (fallback_strategy ''a car'')
   \<and> generate_content_strategy unparseable_model ''a car'' = Inr (fallback_strategy ''a car'')
   \<and> generate_content_strategy missing_key_model ''a car'' = Inr (fallback_strategy ''a car'')
   \<and> generate_content_strategy complete_model ''a car'' = Inr complete_strategy"
proof -
  have failing: "generate_content_strategy failing_model ''a car''
      = Inr (fallback_strategy ''a car'')"
    using strategy_always_returned [of failing_model "''a car''"]
    by (simp add: failing_model_def conformant_failing)
  have unparseable: "generate_content_strategy unparseable_model ''a car''
      = Inr (fallback_strategy ''a car'')"
    using strategy_always_returned [of unparseable_model "''a car''"]
    by (simp add: unparseable_model_def conformant_failing)
  have "invoke_model missing_key_model ''a car'' = Inr missing_key_text
      \<and> json_loads missing_key_model (json_str missing_key_text)
          = Inr (JObject [(''image_prompt'', JString ''a car'')])
      \<and> ''video_prompt'' \<in> set required_keys
      \<and> \<not> has_field (JObject [(''image_prompt'', JString ''a car'')]) ''video_prompt''"
    by (simp add: missing_key_model_def json_str_missing_key required_keys_def has_field_def)
  with strategy_always_returned [OF conformant_missing_key, of "''a car''"]
  have missing: "generate_content_strategy missing_key_model ''a car''
      = Inr (fallback_strategy ''a car'')"
    by blast
  have "invoke_model complete_model ''a car'' = Inr (''Here it is: '' @ complete_text @ '' Enjoy!'')
      \<and> json_loads complete_model (json_str (''Here it is: '' @ complete_text @ '' Enjoy!''))
          = Inr complete_strategy
      \<and> (\<forall>key \<in> set required_keys. has_field complete_strategy key)"
    using json_str_complete
    by (simp add: complete_model_def required_keys_def has_field_def complete_strategy_def)
  with strategy_always_returned [OF conformant_complete, of "''a car''"]
  have "generate_content_strategy complete_model ''a car'' = Inr complete_strategy"
    by blast
  with failing unparseable missing show ?thesis by simp
qed

lemma json_str_empty_fields: "json_str (''Here it is: '' @ empty_fields_text) = empty_fields_text"
  by (simp add: json_str_def empty_fields_text_def py_rfind_def py_slice_def py_index_def Let_def)

text \<open>
  The claim as the specification states it fails on an answer whose three values are
  empty strings: the keys are present, the check passes and the empty values are returned.
\<close>

theorem strategy_nonempty_counterexample:
  "generate_content_strategy empty_fields_model ''a car''
     = Inr (JObject [(''image_prompt'', JString []), (''video_prompt'', JString []),
                     (''audio_script'', JString [])])
   \<and> \<not> nonempty_field (JObject [(''image_prompt'', JString []), (''video_prompt'', JString []),
                     (''audio_script'', JString [])]) ''image_prompt''"
  using json_str_empty_fields
  by (simp add: generate_content_strategy_def generate_body_def
      empty_fields_model_def required_keys_def py_in_def nonempty_field_def)

section \<open>Properties of the Pipeline Driver\<close>

lemma attempt_Inr: "attempt (Inr v) r k = k v"
  by (simp add: attempt_def)

lemma attempt_Inl: "attempt (Inl e) r k = r(''error'' \<mapsto> ErrorMessage e)"
  by (simp add: attempt_def)

lemma not_isl_Inr: "\<not> isl r \<Longrightarrow> \<exists>v. r = Inr v"
  by (cases r) simp_all

text \<open>
  C8, as the code has it. In \<^verbatim>\<open>create_video_advertisement\<close>, once the strategy is there,
  a stage that fails ends the run, and the result returned holds the strategy, the
  reference of every stage that completed before, no reference for the failed stage or
  for a later one, and the message of the failure under \<^verbatim>\<open>error\<close>. The four cases are the
  failure of the image, the video, the voiceover and the merge.
\<close>

theorem partial_results_kept:
  assumes "\<not> isl (agent env (StrategyRequest ad))"
      and "tool_generate_content_strategy env ad = Inr s"
      and "py_getitem s ''image_prompt'' = Inr ip"
      and "py_getitem s ''video_prompt'' = Inr vp"
      and "py_getitem s ''audio_script'' = Inr script"
  shows "(stage_fails (agent env (ImageRequest ip)) (tool_create_reference_image env ip) e \<longrightarrow>
            references (create_video_advertisement env ad)
              = [Some (StrategyData s), None, None, None, None]
          \<and> create_video_advertisement env ad ''error'' = Some (ErrorMessage e))
       \<and> (\<forall>img. stage_ok (agent env (ImageRequest ip)) (tool_create_reference_image env ip) img
            \<and> stage_fails (agent env (VideoRequest vp img))
                (tool_create_video_with_nova_reel env vp img) e \<longrightarrow>
            references (create_video_advertisement env ad)
              = [Some (StrategyData s), Some (S3Path img), None, None, None]
          \<and> create_video_advertisement env ad ''error'' = Some (ErrorMessage e))
       \<and> (\<forall>img vid.
            stage_ok (agent env (ImageRequest ip)) (tool_create_reference_image env ip) img
            \<and> stage_ok (agent env (VideoRequest vp img))
                (tool_create_video_with_nova_reel env vp img) vid
            \<and> stage_fails (agent env (AudioRequest script))
                (tool_create_voiceover_audio env script) e \<longrightarrow>
            references (create_video_advertisement env ad)
              = [Some (StrategyData s), Some (S3Path img), Some (S3Path vid), None, None]
          \<and> create_video_advertisement env ad ''error'' = Some (ErrorMessage e))
       \<and> (\<forall>img vid aud.
            stage_ok (agent env (ImageRequest ip)) (tool_create_reference_image env ip) img
            \<and> stage_ok (agent env (VideoRequest vp img))
                (tool_create_video_with_nova_reel env vp img) vid
            \<and> stage_ok (agent env (AudioRequest script))
                (tool_create_voiceover_audio env script) aud
            \<and> stage_fails (agent env (MergeRequest vid aud))
                (tool_merge_video_and_audio env vid aud) e \<longrightarrow>
            references (create_video_advertisement env ad)
              = [Some (StrategyData s), Some (S3Path img), Some (S3Path vid),
                 Some (S3Path aud), None]
          \<and> create_video_advertisement env ad ''error'' = Some (ErrorMessage e))"
proof -
  obtain a1 where a1: "agent env (StrategyRequest ad) = Inr a1"
    using assms(1) not_isl_Inr by blast
  note start = a1 assms(2-5)
  have image: "stage_fails (agent env (ImageRequest ip)) (tool_create_reference_image env ip) e \<longrightarrow>
            references (create_video_advertisement env ad)
              = [Some (StrategyData s), None, None, None, None]
          \<and> create_video_advertisement env ad ''error'' = Some (ErrorMessage e)"
    using start
    by (auto simp: stage_fails_def create_video_advertisement_def attempt_def references_def
        dest!: not_isl_Inr)
  have video: "\<forall>img. stage_ok (agent env (ImageRequest ip)) (tool_create_reference_image env ip) img
            \<and> stage_fails (agent env (VideoRequest vp img))
                (tool_create_video_with_nova_reel env vp img) e \<longrightarrow>
            references (create_video_advertisement env ad)
              = [Some (StrategyData s), Some (S3Path img), None, None, None]
          \<and> create_video_advertisement env ad ''error'' = Some (ErrorMessage e)"
    using start
    by (auto simp: stage_fails_def stage_ok_def create_video_advertisement_def attempt_def
        references_def dest!: not_isl_Inr)
  have voice: "\<forall>img vid.
            stage_ok (agent env (ImageRequest ip)) (tool_create_reference_image env ip) img
            \<and> stage_ok (agent env (VideoRequest vp img))
                (tool_create_video_with_nova_reel env vp img) vid
            \<and> stage_fails (agent env (AudioRequest script))
                (tool_create_voiceover_audio env script) e \<longrightarrow>
            references (create_video_advertisement env ad)
              = [Some (StrategyData s), Some (S3Path img), Some (S3Path vid), None, None]
          \<and> create_video_advertisement env ad ''error'' = Some (ErrorMessage e)"
    using start
    by (auto simp: stage_fails_def stage_ok_def create_video_advertisement_def attempt_def
        references_def dest!: not_isl_Inr)
  have merge: "\<forall>img vid aud.
            stage_ok (agent env (ImageRequest ip)) (tool_create_reference_image env ip) img
            \<and> stage_ok (agent env (VideoRequest vp img))
                (tool_create_video_with_nova_reel env vp img) vid
            \<and> stage_ok (agent env (AudioRequest script))
                (tool_create_voiceover_audio env script) aud
            \<and> stage_fails (agent env (MergeRequest vid aud))
                (tool_merge_video_and_audio env vid aud) e \<longrightarrow>
            references (create_video_advertisement env ad)
              = [Some (StrategyData s), Some (S3Path img), Some (S3Path vid),
                 Some (S3Path aud), None]
          \<and> create_video_advertisement env ad ''error'' = Some (ErrorMessage e)"
    using start
    by (auto simp: stage_fails_def stage_ok_def create_video_advertisement_def attempt_def
        references_def dest!: not_isl_Inr)
  from image video voice merge show ?thesis by (intro conjI)
qed

text \<open>
  With a voiceover that cannot be made, the result holds the strategy, the image and the
  video and neither audio nor final video; likewise for the other three stages.
\<close>

theorem partial_results_kept_witness:
  "references (create_video_advertisement (failing_at 4) ''a car'')
     = [Some (StrategyData (fallback_strategy ''a car'')),
        Some (S3Path ''s3://ads/generated_images/ref_image_u1.png''),
        Some (S3Path ''s3://ads/generated_videos/video_u2/output.mp4''), None, None]
   \<and> create_video_advertisement (failing_at 4) ''a car'' ''error''
     = Some (ErrorMessage ''Failed to create voiceover: AccessDenied'')
   \<and> references (create_video_advertisement (failing_at 2) ''a car'')
     = [Some (StrategyData (fallback_strategy ''a car'')), None, None, None, None]
   \<and> references (create_video_advertisement (failing_at 3) ''a car'')
     = [Some (StrategyData (fallback_strategy ''a car'')),
        Some (S3Path ''s3://ads/generated_images/ref_image_u1.png''), None, None, None]
   \<and> references (create_video_advertisement (failing_at 5) ''a car'')
     = [Some (StrategyData (fallback_strategy ''a car'')),
        Some (S3Path ''s3://ads/generated_images/ref_image_u1.png''),
        Some (S3Path ''s3://ads/generated_videos/video_u2/output.mp4''),
        Some (S3Path ''s3://ads/generated_audio/voiceover_u3.mp3''), None]"
proof -
  let ?s = "fallback_strategy ''a car''"
  let ?ip = "JString (fallback_image_prompt ''a car'')"
  let ?vp = "JString (fallback_video_prompt ''a car'')"
  let ?script = "JString (fallback_audio_script ''a car'')"
  have fields: "py_getitem ?s ''image_prompt'' = Inr ?ip" "py_getitem ?s ''video_prompt'' = Inr ?vp"
    "py_getitem ?s ''audio_script'' = Inr ?script"
    by (simp_all add: py_getitem_def fallback_strategy_def)
  have start: "\<not> isl (agent (failing_at n) (StrategyRequest ''a car''))"
    "tool_generate_content_strategy (failing_at n) ''a car'' = Inr ?s" for n
    by (simp_all add: failing_at_def)
  note kept = partial_results_kept [OF start fields]
  have voice: "references (create_video_advertisement (failing_at 4) ''a car'')
     = [Some (StrategyData ?s), Some (S3Path ''s3://ads/generated_images/ref_image_u1.png''),
        Some (S3Path ''s3://ads/generated_videos/video_u2/output.mp4''), None, None]
   \<and> create_video_advertisement (failing_at 4) ''a car'' ''error''
     = Some (ErrorMessage ''Failed to create voiceover: AccessDenied'')"
    using kept [of 4 "''Failed to create voiceover: AccessDenied''"]
    by (simp add: failing_at_def stage_ok_def stage_fails_def)
  have image: "references (create_video_advertisement (failing_at 2) ''a car'')
     = [Some (StrategyData ?s), None, None, None, None]"
    using kept [of 2 "''Failed to create reference image: AccessDenied''"]
    by (simp add: failing_at_def stage_ok_def stage_fails_def)
  have video: "references (create_video_advertisement (failing_at 3) ''a car'')
     = [Some (StrategyData ?s), Some (S3Path ''s3://ads/generated_images/ref_image_u1.png''),
        None, None, None]"
    using kept [of 3 "''Failed to create video: Video generation failed: Unknown error''"]
    by (simp add: failing_at_def stage_ok_def stage_fails_def)
  have merge: "references (create_video_advertisement (failing_at 5) ''a car'')
     = [Some (StrategyData ?s), Some (S3Path ''s3://ads/generated_images/ref_image_u1.png''),
        Some (S3Path ''s3://ads/generated_videos/video_u2/output.mp4''),
        Some (S3Path ''s3://ads/generated_audio/voiceover_u3.mp3''), None]"
    using kept [of 5 "''Failed to merge video and audio: NoSuchKey''"]
    by (simp add: failing_at_def stage_ok_def stage_fails_def)
  from voice image video merge show ?thesis by simp
qed

text \<open>
  The claim as the specification states it fails on the driver of \<^verbatim>\<open>streamlit_agent.py\<close>:
  with the same failing voiceover, \<^verbatim>\<open>create_video_ad\<close> raises, and nothing of the
  strategy, the image or the video is returned.
\<close>

theorem partial_results_counterexample:
  "create_video_ad (failing_at 4) ''a car'' = Inl ''Failed to create voiceover: AccessDenied''"
  by (simp add: create_video_ad_def raising_def failing_at_def parse_strategy_from_response_def
      parse_s3_path_from_response_def path_or_call_def py_getitem_def fallback_strategy_def
      py_rfind_def ends_path_def Let_def)

section \<open>Properties of the storage keys\<close>

lemma prefix_same_length:
  assumes "prefix a k" and "prefix b k" and "length a = length b"
  shows "a = b"
  using assms by (auto simp: prefix_def)

text \<open>The image and the voiceover tool store under no other key than the one of their UUID.\<close>

lemma create_reference_image_writes:
  "set (snd (create_reference_image env u image_prompt)) \<subseteq> {image_key_for u}"
  by (simp add: create_reference_image_def Let_def split: sum.splits)

lemma create_voiceover_audio_writes:
  "set (snd (create_voiceover_audio env u audio_script)) \<subseteq> {audio_key_for u}"
  by (simp add: create_voiceover_audio_def Let_def split: sum.splits)

text \<open>The video tool hands the service no other location than the one of its UUID.\<close>

lemma output_uris_append: "output_uris (cs @ ds) = output_uris cs @ output_uris ds"
  by (induction cs rule: output_uris.induct) simp_all

lemma poll_loop_no_output_uri:
  "output_uris (snd (poll_loop env arn vk elapsed n)) = []"
proof (induction env arn vk elapsed n rule: poll_loop.induct)
  case (1 env arn vk elapsed n)
  show ?case
    by (subst poll_loop.simps)
       (use 1 in \<open>auto simp: logged_def split: sum.splits\<close>)
qed

lemma create_video_output_uris:
  "set (output_uris (snd (create_video_with_nova_reel env u p ref))) \<subseteq> {output_s3_uri env u}"
  by (auto simp: create_video_snd create_video_body_def logged_def Let_def
      poll_loop_no_output_uri split: sum.splits)

text \<open>Where a run can store, by the UUIDs it has drawn.\<close>

lemma stores_cases:
  assumes "stores env r x location"
  shows "location = s3_path (s3_bucket env) (image_key_for (image_uuid r))
       \<or> prefix (''s3://'' @ s3_bucket env @ ''/'' @ video_key_for (video_uuid r) @ ''/'') location
       \<or> location = s3_path (s3_bucket env) (audio_key_for (audio_uuid r))
       \<or> location = s3_path (s3_bucket env) (final_video_key_for (final_uuid r))"
proof -
  have uri: "output_s3_uri (aws.truncate env) u
      = ''s3://'' @ s3_bucket env @ ''/'' @ video_key_for u @ ''/''" for u
    by (simp add: output_s3_uri_def aws.truncate_def)
  from assms consider
      (image) "location \<in> s3_path (s3_bucket env)
         ` set (snd (create_reference_image env (image_uuid r) (image_prompt_in x)))"
    | (video) uri where "uri \<in> set (output_uris (snd (create_video_with_nova_reel
         (aws.truncate env) (video_uuid r) (video_prompt_in x) (reference_image_in x))))"
        and "prefix uri location"
    | (voice) "location \<in> s3_path (s3_bucket env)
         ` set (snd (create_voiceover_audio env (audio_uuid r) (audio_script_in x)))"
    | (merge) "location \<in> s3_path (s3_bucket env)
         ` set (merge_puts env (final_uuid r) (disk_in x) (video_s3_path_in x)
                  (audio_s3_path_in x))"
    by (auto simp: stores_def list_ex_iff)
  then show ?thesis
  proof cases
    case image
    then show ?thesis
      using create_reference_image_writes [of env "image_uuid r" "image_prompt_in x"] by auto
  next
    case video
    then show ?thesis
      using create_video_output_uris [of "aws.truncate env" "video_uuid r" "video_prompt_in x"
          "reference_image_in x"]
      by (auto simp: uri)
  next
    case voice
    then show ?thesis
      using create_voiceover_audio_writes [of env "audio_uuid r" "audio_script_in x"] by auto
  next
    case merge
    then show ?thesis
      using merge_puts_key [of env "final_uuid r" "disk_in x" "video_s3_path_in x"
          "audio_s3_path_in x"]
      by auto
  qed
qed

lemma stores_image:
  "stores working_studio first_draws car_inputs ''s3://ads/generated_images/ref_image_0a.png''"
  by (simp add: stores_def create_reference_image_def working_studio_def first_draws_def
      car_inputs_def image_key_for_def s3_path_def Let_def)

text \<open>
  C9, as the code has it. The tools store under keys made from the UUIDs drawn, and do
  not look whether a key is in use. Two runs on one bucket that differ in the UUID of
  each kind (the video UUIDs being of one length, as the hex strings of UUIDs are) store
  at no common location. The voiceover step of \<^verbatim>\<open>auto_video_ad.py\<close> stores under a key
  made from the clock read to the second, which does not depend on the fraction of the
  second.
\<close>

theorem keys_follow_uuids:
  assumes "s3_bucket env = s3_bucket env'"
      and "image_uuid r \<noteq> image_uuid r'"
      and "video_uuid r \<noteq> video_uuid r'"
      and "length (video_uuid r) = length (video_uuid r')"
      and "audio_uuid r \<noteq> audio_uuid r'"
      and "final_uuid r \<noteq> final_uuid r'"
  shows "\<not> (stores env r x location \<and> stores env' r' x' location)
       \<and> snd (auto_audio_step env (now\<lparr> microsecond := us \<rparr>) script)
           = snd (auto_audio_step env now script)"
proof -
  let ?b = "s3_bucket env"
  have video: "\<not> (prefix (''s3://'' @ ?b @ ''/'' @ video_key_for (video_uuid r) @ ''/'') location
                 \<and> prefix (''s3://'' @ ?b @ ''/'' @ video_key_for (video_uuid r') @ ''/'')
                      location)"
  proof
    assume both: "prefix (''s3://'' @ ?b @ ''/'' @ video_key_for (video_uuid r) @ ''/'') location
                 \<and> prefix (''s3://'' @ ?b @ ''/'' @ video_key_for (video_uuid r') @ ''/'')
                      location"
    have "''s3://'' @ ?b @ ''/'' @ video_key_for (video_uuid r) @ ''/''
        = ''s3://'' @ ?b @ ''/'' @ video_key_for (video_uuid r') @ ''/''"
      using both assms(4)
      by (intro prefix_same_length [of _ location]) (simp_all add: video_key_for_def)
    then show False using assms(3) by (simp add: video_key_for_def)
  qed
  have "\<not> (stores env r x location \<and> stores env' r' x' location)"
  proof
    assume "stores env r x location \<and> stores env' r' x' location"
    then have one: "location = s3_path ?b (image_key_for (image_uuid r))
        \<or> prefix (''s3://'' @ ?b @ ''/'' @ video_key_for (video_uuid r) @ ''/'') location
        \<or> location = s3_path ?b (audio_key_for (audio_uuid r))
        \<or> location = s3_path ?b (final_video_key_for (final_uuid r))"
      and other: "location = s3_path ?b (image_key_for (image_uuid r'))
        \<or> prefix (''s3://'' @ ?b @ ''/'' @ video_key_for (video_uuid r') @ ''/'') location
        \<or> location = s3_path ?b (audio_key_for (audio_uuid r'))
        \<or> location = s3_path ?b (final_video_key_for (final_uuid r'))"
      using stores_cases [of env r x location] stores_cases [of env' r' x' location] assms(1)
      by simp_all
    from one other video assms(2,5,6) show False
      by (auto simp: s3_path_def image_key_for_def audio_key_for_def final_video_key_for_def
          video_key_for_def)
  qed
  moreover have key: "auto_audio_s3_key (now\<lparr> microsecond := us \<rparr>) = auto_audio_s3_key now"
    by (simp add: auto_audio_s3_key_def strftime_def)
  have "auto_audio_step env (now\<lparr> microsecond := us \<rparr>) script = auto_audio_step env now script"
    unfolding auto_audio_step_def key by (rule refl)
  ultimately show ?thesis
    by simp
qed

theorem keys_follow_uuids_witness:
  "stores working_studio first_draws car_inputs ''s3://ads/generated_images/ref_image_0a.png''
   \<and> \<not> stores working_studio second_draws car_inputs
         ''s3://ads/generated_images/ref_image_0a.png''"
  using keys_follow_uuids [of working_studio working_studio first_draws second_draws
      car_inputs "''s3://ads/generated_images/ref_image_0a.png''" car_inputs] stores_image
  by (simp add: first_draws_def second_draws_def)

text \<open>
  The claim as the specification states it fails twice. Two runs of \<^verbatim>\<open>auto_video_ad.py\<close>
  that reach the voiceover step within the same second both store under the same key.
  Two runs of the tools of which the second has drawn the image UUID of the first both
  store their image at the same location.
\<close>

theorem common_key_counterexample:
  "first_run_clock \<noteq> second_run_clock
   \<and> snd (auto_audio_step working_studio first_run_clock ''Drive it.'')
       = [''audio/ad_audio_20250601_120007.mp3'']
   \<and> snd (auto_audio_step working_studio second_run_clock ''Drive it.'')
       = [''audio/ad_audio_20250601_120007.mp3'']
   \<and> first_draws \<noteq> colliding_draws
   \<and> stores working_studio first_draws car_inputs ''s3://ads/generated_images/ref_image_0a.png''
   \<and> stores working_studio colliding_draws car_inputs
       ''s3://ads/generated_images/ref_image_0a.png''"
proof -
  have clocks: "first_run_clock \<noteq> second_run_clock
      \<and> snd (auto_audio_step working_studio first_run_clock ''Drive it.'')
          = [''audio/ad_audio_20250601_120007.mp3'']
      \<and> snd (auto_audio_step working_studio second_run_clock ''Drive it.'')
          = [''audio/ad_audio_20250601_120007.mp3'']"
    by (simp add: first_run_clock_def second_run_clock_def auto_audio_step_def
        working_studio_def auto_audio_s3_key_def strftime_def digit_def Let_def)
  have draws: "first_draws \<noteq> colliding_draws"
    by (simp add: first_draws_def second_draws_def colliding_draws_def)
  have "stores working_studio colliding_draws car_inputs
      ''s3://ads/generated_images/ref_image_0a.png''"
    by (simp add: stores_def create_reference_image_def working_studio_def colliding_draws_def
        second_draws_def car_inputs_def image_key_for_def s3_path_def Let_def)
  with clocks draws stores_image show ?thesis by simp
qed

end
